theory Spec2Isabelle
  imports Complex_Main "HOL-Library.Sublist"
begin

section \<open>Numbers, geometry and messages\<close>

text \<open>
  A C++ \<^verbatim>\<open>double\<close> is either finite, one of the two infinities, or not a number.
  \<open>Fin r\<close> stands for a finite double of value \<open>r\<close> (both signed zeros are
  \<open>Fin 0\<close>). Comparisons and \<^verbatim>\<open>std::isfinite\<close> are exact and are defined here;
  the arithmetic operations round, so they are taken as parameters (record
  \<open>externals\<close> below) and every theorem holds for any such operations.
\<close>

datatype double = Fin real | PInf | NInf | NaN

fun isfinite :: "double \<Rightarrow> bool" where
  "isfinite (Fin r) = True"
| "isfinite PInf = False"
| "isfinite NInf = False"
| "isfinite NaN = False"

text \<open>\<^verbatim>\<open>a < b\<close> on doubles: false as soon as one side is not a number.\<close>

fun dless :: "double \<Rightarrow> double \<Rightarrow> bool" where
  "dless (Fin a) (Fin b) = (a < b)"
| "dless (Fin a) PInf = True"
| "dless NInf (Fin b) = True"
| "dless NInf PInf = True"
| "dless a b = False"

text \<open>\<^verbatim>\<open>a <= b\<close> on doubles.\<close>

fun dle :: "double \<Rightarrow> double \<Rightarrow> bool" where
  "dle (Fin a) (Fin b) = (a \<le> b)"
| "dle NaN b = False"
| "dle a NaN = False"
| "dle NInf b = True"
| "dle a PInf = True"
| "dle a b = False"

record Point =
  p_x :: double
  p_y :: double
  p_z :: double

record Quaternion =
  q_x :: double
  q_y :: double
  q_z :: double
  q_w :: double

record Pose =
  position :: Point
  orientation :: Quaternion

record Vector3 =
  v_x :: double
  v_y :: double
  v_z :: double

record ColorRGBA =
  c_r :: double
  c_g :: double
  c_b :: double
  c_a :: double

record Header =
  stamp :: nat
  frame_id :: string

datatype marker_type = ARROW | CUBE | SPHERE_LIST | CUBE_LIST | LINE_LIST | TEXT_VIEW_FACING

datatype marker_action = ADD | DELETE | DELETEALL

record Marker =
  m_header :: Header
  m_ns :: string
  m_id :: nat
  m_type :: marker_type
  m_action :: marker_action
  m_pose :: Pose
  m_scale :: Vector3
  m_color :: ColorRGBA
  m_points :: "Point list"
  m_colors :: "ColorRGBA list"
  m_text :: string

type_synonym MarkerArray = "Marker list"

definition zero_point :: Point where
  "zero_point = \<lparr>p_x = Fin 0, p_y = Fin 0, p_z = Fin 0\<rparr>"

text \<open>A default-constructed message: every numeric field zero, every container empty,
  so the type is the first enumerator and the action is \<open>ADD\<close>.\<close>

definition new_Marker :: Marker where
  "new_Marker =
     \<lparr>m_header = \<lparr>stamp = 0, frame_id = []\<rparr>, m_ns = [], m_id = 0, m_type = ARROW,
      m_action = ADD,
      m_pose = \<lparr>position = zero_point,
                orientation = \<lparr>q_x = Fin 0, q_y = Fin 0, q_z = Fin 0, q_w = Fin 0\<rparr>\<rparr>,
      m_scale = \<lparr>v_x = Fin 0, v_y = Fin 0, v_z = Fin 0\<rparr>,
      m_color = \<lparr>c_r = Fin 0, c_g = Fin 0, c_b = Fin 0, c_a = Fin 0\<rparr>,
      m_points = [], m_colors = [], m_text = []\<rparr>"

section \<open>The scene graph\<close>

text \<open>
  Identifiers of nodes and layers are natural numbers, and so is the identifier of a
  marker: the conversion of an identifier to the integer field of the message is not
  modelled. \<open>NodeColor\<close> has three numeric components; the source writes the sentinel
  as \<^verbatim>\<open><< 1.0, 0.0, 0.0\<close> and black as \<^verbatim>\<open>NodeColor::Zero()\<close>.
\<close>

type_synonym NodeId = nat
type_synonym LayerId = nat

datatype NodeColor = NodeColor real real real

definition NodeColor_Zero :: NodeColor where
  "NodeColor_Zero = NodeColor 0 0 0"

datatype BoundingBox_Type = OBB | AABB | INVALID

record BoundingBox =
  bb_type :: BoundingBox_Type
  bb_min :: Vector3
  bb_max :: Vector3
  world_P_center :: Point
  world_R_center :: Quaternion

text \<open>
  Modelled from the spec: the attribute classes are declared in headers that are not part
  of the sources at hand. A node carries a position and a polymorphic payload:
  \<open>Semantic\<close> adds a color, \<open>Object\<close> extends \<open>Semantic\<close> with a bounding box,
  \<open>Place\<close> extends \<open>Semantic\<close> with a clearance distance. The plain variant is the
  base class that \<^verbatim>\<open>attributes()\<close> returns; it is the one for which the cast to
  \<open>Semantic\<close> fails.
\<close>

datatype NodeAttributes =
    PlainAttributes Point
  | SemanticNodeAttributes Point NodeColor
  | ObjectNodeAttributes Point NodeColor BoundingBox
  | PlaceNodeAttributes Point NodeColor double

datatype error = BadCast | OutOfRange | EmptyOptional | NullPointer | IteratorPastEnd

fun attr_position :: "NodeAttributes \<Rightarrow> Point" where
  "attr_position (PlainAttributes p) = p"
| "attr_position (SemanticNodeAttributes p c) = p"
| "attr_position (ObjectNodeAttributes p c b) = p"
| "attr_position (PlaceNodeAttributes p c d) = p"

text \<open>\<^verbatim>\<open>attributes<SemanticNodeAttributes>().color\<close>: throws \<^verbatim>\<open>std::bad_cast\<close> on the
  plain variant.\<close>

fun semantic_color :: "NodeAttributes \<Rightarrow> error + NodeColor" where
  "semantic_color (PlainAttributes p) = Inl BadCast"
| "semantic_color (SemanticNodeAttributes p c) = Inr c"
| "semantic_color (ObjectNodeAttributes p c b) = Inr c"
| "semantic_color (PlaceNodeAttributes p c d) = Inr c"

text \<open>\<^verbatim>\<open>attributes<ObjectNodeAttributes>().bounding_box\<close>.\<close>

fun object_bounding_box :: "NodeAttributes \<Rightarrow> error + BoundingBox" where
  "object_bounding_box (ObjectNodeAttributes p c b) = Inr b"
| "object_bounding_box a = Inl BadCast"

text \<open>\<^verbatim>\<open>attributes<PlaceNodeAttributes>().distance\<close>.\<close>

fun place_distance :: "NodeAttributes \<Rightarrow> error + double" where
  "place_distance (PlaceNodeAttributes p c d) = Inr d"
| "place_distance a = Inl BadCast"

record Node =
  n_id :: NodeId
  n_layer :: LayerId
  n_attributes :: NodeAttributes

record Edge =
  e_source :: NodeId
  e_target :: NodeId

text \<open>The containers of a layer and of a graph are ordered maps; each is modelled by
  the list of its values in iteration order.\<close>

record SceneGraphLayer =
  l_id :: LayerId
  l_nodes :: "Node list"
  l_edges :: "Edge list"

record SceneGraph =
  g_layers :: "SceneGraphLayer list"
  inter_layer_edges :: "Edge list"
  getMeshCloudForNode :: "NodeId \<Rightarrow> Point list option"

definition getNode :: "SceneGraph \<Rightarrow> NodeId \<Rightarrow> Node option" where
  "getNode g i = find (\<lambda>n. n_id n = i) (concat (map l_nodes (g_layers g)))"

text \<open>\<^verbatim>\<open>layer.getPosition(id)\<close>: throws when the layer has no such node.\<close>

definition getPosition :: "SceneGraphLayer \<Rightarrow> NodeId \<Rightarrow> error + Point" where
  "getPosition l i =
     (case find (\<lambda>n. n_id n = i) (l_nodes l) of
        None \<Rightarrow> Inl OutOfRange
      | Some n \<Rightarrow> Inr (attr_position (n_attributes n)))"

section \<open>Configuration\<close>

text \<open>
  The fields of the two configuration structures that the sources read. The structures are
  declared outside the two source files; the skip counts are taken to be natural numbers,
  as the counters they are compared with are unsigned.
\<close>

record LayerConfig =
  visualize :: bool
  use_label :: bool
  use_bounding_box :: bool
  use_sphere_marker :: bool
  marker_scale :: double
  marker_alpha :: double
  label_scale :: double
  label_height :: double
  bounding_box_alpha :: double
  interlayer_edge_scale :: double
  interlayer_edge_alpha :: double
  interlayer_edge_use_color :: bool
  use_edge_source :: bool
  interlayer_edge_insertion_skip :: nat
  intralayer_edge_scale :: double
  intralayer_edge_alpha :: double
  intralayer_edge_insertion_skip :: nat

record VisualizerConfig =
  places_min_distance :: double
  places_max_distance :: double
  places_min_hue :: double
  places_max_hue :: double
  places_min_saturation :: double
  places_max_saturation :: double
  places_min_luminance :: double
  places_max_luminance :: double
  color_places_by_distance :: bool
  collapse_layers :: bool
  mesh_edge_break_ratio :: double
  mesh_layer_offset :: double

record HlsColorMapConfig =
  min_hue :: double
  max_hue :: double
  min_saturation :: double
  max_saturation :: double
  min_luminance :: double
  max_luminance :: double

text \<open>
  What the two source files use and do not define: the arithmetic of the machine, the
  helpers declared in the headers of the package, the two layer constants, the emptiness
  test of a graph and the clock. Every reading of the clock within one pass gives the same
  stamp \<open>now\<close>. The functions below take these as the parameter \<open>X\<close>.
\<close>

record externals =
  dadd :: "double \<Rightarrow> double \<Rightarrow> double"
  dsub :: "double \<Rightarrow> double \<Rightarrow> double"
  dmul :: "double \<Rightarrow> double \<Rightarrow> double"
  ddiv :: "double \<Rightarrow> double \<Rightarrow> double"
  getZOffset :: "LayerConfig \<Rightarrow> VisualizerConfig \<Rightarrow> double"
  makeColorMsg :: "NodeColor \<Rightarrow> double \<Rightarrow> ColorRGBA"
  makeColorMsg1 :: "NodeColor \<Rightarrow> ColorRGBA"
  interpolateColorMap :: "HlsColorMapConfig \<Rightarrow> double \<Rightarrow> NodeColor"
  getLabel :: "NodeId \<Rightarrow> string"
  OBJECTS :: LayerId
  PLACES :: LayerId
  graph_empty :: "SceneGraph \<Rightarrow> bool"
  now :: nat

section \<open>visualizer\_utils.cpp\<close>

definition getRatio :: "externals \<Rightarrow> double \<Rightarrow> double \<Rightarrow> double \<Rightarrow> double" where
  "getRatio X mn mx val =
     (let ratio = ddiv X (dsub X val mn) (dsub X mx mn);
          ratio = (if \<not> isfinite ratio then Fin 0 else ratio);
          ratio = (if dless (Fin 1) ratio then Fin 1 else ratio);
          ratio = (if dless ratio (Fin 0) then Fin 0 else ratio)
      in ratio)"

definition getDistanceColor :: "externals \<Rightarrow> VisualizerConfig \<Rightarrow> double \<Rightarrow> NodeColor" where
  "getDistanceColor X config distance =
     (if dle (places_max_distance config) (places_min_distance config) then NodeColor_Zero
      else
        let hls_config = \<lparr>min_hue = places_min_hue config, max_hue = places_max_hue config,
                          min_saturation = places_min_saturation config,
                          max_saturation = places_max_saturation config,
                          min_luminance = places_min_luminance config,
                          max_luminance = places_max_luminance config\<rparr>;
            ratio = getRatio X (places_min_distance config) (places_max_distance config) distance
        in interpolateColorMap X hls_config ratio)"

definition fillPoseWithIdentity :: "Pose \<Rightarrow> Pose" where
  "fillPoseWithIdentity pose =
     pose\<lparr>position := zero_point,
          orientation := \<lparr>q_x = Fin 0, q_y = Fin 0, q_z = Fin 0, q_w = Fin 1\<rparr>\<rparr>"


datatype log_entry = ROS_WARN string | ROS_ERROR string

text \<open>\<^verbatim>\<open>std::to_string\<close> on an unsigned integer.\<close>

definition digit_char :: "nat \<Rightarrow> char" where
  "digit_char d = char_of (48 + d)"

fun to_string :: "nat \<Rightarrow> string" where
  "to_string n = (if n < 10 then [digit_char n] else to_string (n div 10) @ [digit_char (n mod 10)])"

declare to_string.simps [simp del]

text \<open>
  \<^verbatim>\<open>makeBoundingBoxMarker\<close>: both casts may throw; a box that is neither oriented nor
  axis-aligned is logged and leaves the pose as constructed. The result carries the
  messages logged on the way.
\<close>

definition makeBoundingBoxMarker ::
  "externals \<Rightarrow> LayerConfig \<Rightarrow> Node \<Rightarrow> VisualizerConfig \<Rightarrow> string \<Rightarrow> error + (Marker \<times> log_entry list)" where
  "makeBoundingBoxMarker X config node visualizer_config marker_namespace =
     (let marker = new_Marker\<lparr>m_type := CUBE, m_action := ADD, m_id := n_id node,
                              m_ns := marker_namespace\<rparr>
      in case semantic_color (n_attributes node) of
           Inl e \<Rightarrow> Inl e
         | Inr col \<Rightarrow>
             let marker = marker\<lparr>m_color := makeColorMsg X col (bounding_box_alpha config)\<rparr>
             in case object_bounding_box (n_attributes node) of
                  Inl e \<Rightarrow> Inl e
                | Inr bounding_box \<Rightarrow>
                    let centre = world_P_center bounding_box;
                        lifted = centre\<lparr>p_z := dadd X (p_z centre) (getZOffset X config visualizer_config)\<rparr>;
                        (marker, msgs) =
                          (case bb_type bounding_box of
                             OBB \<Rightarrow>
                               (marker\<lparr>m_pose := \<lparr>position = lifted,
                                                   orientation = world_R_center bounding_box\<rparr>\<rparr>, [])
                           | AABB \<Rightarrow>
                               (marker\<lparr>m_pose := \<lparr>position = lifted,
                                                   orientation = \<lparr>q_x = Fin 0, q_y = Fin 0,
                                                                  q_z = Fin 0, q_w = Fin 1\<rparr>\<rparr>\<rparr>, [])
                           | INVALID \<Rightarrow>
                               (marker, [ROS_ERROR ''Invalid bounding box encountered!'']));
                        mx = bb_max bounding_box;
                        mn = bb_min bounding_box
                    in Inr (marker\<lparr>m_scale := \<lparr>v_x = dsub X (v_x mx) (v_x mn),
                                                 v_y = dsub X (v_y mx) (v_y mn),
                                                 v_z = dsub X (v_z mx) (v_z mn)\<rparr>\<rparr>, msgs))"

definition makeTextMarker ::
  "externals \<Rightarrow> LayerConfig \<Rightarrow> Node \<Rightarrow> VisualizerConfig \<Rightarrow> string \<Rightarrow> Marker" where
  "makeTextMarker X config node visualizer_config marker_namespace =
     (let marker = new_Marker\<lparr>m_ns := marker_namespace, m_id := n_id node,
                              m_type := TEXT_VIEW_FACING, m_action := ADD,
                              m_text := getLabel X (n_id node)\<rparr>;
          marker = marker\<lparr>m_scale := (m_scale marker)\<lparr>v_z := label_scale config\<rparr>,
                          m_color := makeColorMsg1 X NodeColor_Zero\<rparr>;
          pose = fillPoseWithIdentity (m_pose marker);
          pos = attr_position (n_attributes node);
          pos = pos\<lparr>p_z := dadd X (p_z pos)
                              (dadd X (getZOffset X config visualizer_config) (label_height config))\<rparr>
      in marker\<lparr>m_pose := pose\<lparr>position := pos\<rparr>\<rparr>)"

text \<open>
  The body of the loop of \<^verbatim>\<open>makeCentroidMarkers\<close>, on the pair of the flag
  \<^verbatim>\<open>node_colors_valid\<close> and the marker under construction. Only the cast to
  \<open>Semantic\<close> sits in a \<^verbatim>\<open>try\<close> block; the cast to \<open>Place\<close> does not.
\<close>

definition sentinel_red :: NodeColor where
  "sentinel_red = NodeColor 1 0 0"

definition centroid_step ::
  "externals \<Rightarrow> LayerConfig \<Rightarrow> LayerId \<Rightarrow> VisualizerConfig \<Rightarrow> NodeColor option \<Rightarrow> Node
     \<Rightarrow> bool \<times> Marker \<Rightarrow> error + (bool \<times> Marker)" where
  "centroid_step X config layer_id visualizer_config layer_color node st =
     (let (node_colors_valid, marker) = st;
          node_centroid = attr_position (n_attributes node);
          node_centroid = node_centroid\<lparr>p_z := dadd X (p_z node_centroid)
                                                  (getZOffset X config visualizer_config)\<rparr>;
          marker = marker\<lparr>m_points := m_points marker @ [node_centroid]\<rparr>;
          chosen =
            (case layer_color of
               Some c \<Rightarrow> Inr (node_colors_valid, c)
             | None \<Rightarrow>
                 if \<not> node_colors_valid then Inr (node_colors_valid, sentinel_red)
                 else if color_places_by_distance visualizer_config \<and> layer_id = PLACES X then
                   (case place_distance (n_attributes node) of
                      Inl e \<Rightarrow> Inl e
                    | Inr d \<Rightarrow> Inr (node_colors_valid, getDistanceColor X visualizer_config d))
                 else
                   (case semantic_color (n_attributes node) of
                      Inl e \<Rightarrow> if e = BadCast then Inr (False, sentinel_red) else Inl e
                    | Inr c \<Rightarrow> Inr (node_colors_valid, c)))
      in case chosen of
           Inl e \<Rightarrow> Inl e
         | Inr (valid, desired_color) \<Rightarrow>
             Inr (valid, marker\<lparr>m_colors := m_colors marker
                                   @ [makeColorMsg X desired_color (marker_alpha config)]\<rparr>))"

fun centroid_loop ::
  "externals \<Rightarrow> LayerConfig \<Rightarrow> LayerId \<Rightarrow> VisualizerConfig \<Rightarrow> NodeColor option \<Rightarrow> Node list
     \<Rightarrow> bool \<times> Marker \<Rightarrow> error + (bool \<times> Marker)" where
  "centroid_loop X config layer_id visualizer_config layer_color [] st = Inr st"
| "centroid_loop X config layer_id visualizer_config layer_color (node # nodes) st =
     (case centroid_step X config layer_id visualizer_config layer_color node st of
        Inl e \<Rightarrow> Inl e
      | Inr st' \<Rightarrow> centroid_loop X config layer_id visualizer_config layer_color nodes st')"

definition makeCentroidMarkers ::
  "externals \<Rightarrow> LayerConfig \<Rightarrow> SceneGraphLayer \<Rightarrow> VisualizerConfig \<Rightarrow> NodeColor option
     \<Rightarrow> string \<Rightarrow> error + Marker" where
  "makeCentroidMarkers X config layer visualizer_config layer_color marker_namespace =
     (let marker = new_Marker\<lparr>m_type := (if use_sphere_marker config then SPHERE_LIST else CUBE_LIST),
                              m_action := ADD, m_id := l_id layer, m_ns := marker_namespace,
                              m_scale := \<lparr>v_x = marker_scale config, v_y = marker_scale config,
                                          v_z = marker_scale config\<rparr>\<rparr>;
          marker = marker\<lparr>m_pose := fillPoseWithIdentity (m_pose marker)\<rparr>
      in case centroid_loop X config (l_id layer) visualizer_config layer_color (l_nodes layer)
                (True, marker) of
           Inl e \<Rightarrow> Inl e
         | Inr (valid, marker) \<Rightarrow> Inr marker)"

definition makeNewEdgeList :: "LayerConfig \<Rightarrow> LayerId \<Rightarrow> Marker" where
  "makeNewEdgeList config layer_id =
     (let marker = new_Marker\<lparr>m_type := LINE_LIST\<rparr>;
          marker = (if visualize config then marker\<lparr>m_action := ADD\<rparr>
                    else marker\<lparr>m_action := DELETE\<rparr>);
          marker = marker\<lparr>m_id := layer_id, m_ns := ''graph_edges''\<rparr>;
          marker = marker\<lparr>m_scale := (m_scale marker)\<lparr>v_x := interlayer_edge_scale config\<rparr>\<rparr>
      in marker\<lparr>m_pose := fillPoseWithIdentity (m_pose marker)\<rparr>)"


subsection \<open>Inter-layer edges\<close>

text \<open>
  \<^verbatim>\<open>std::map<LayerId, Marker>\<close> is iterated at the end, in key order: an association
  list kept ordered by key. \<open>map_put\<close> is the assignment \<^verbatim>\<open>m[k] = v\<close>. The counters
  \<^verbatim>\<open>std::map<LayerId, size_t>\<close> are only read and written by key: a map, where reading
  an absent key gives zero as \<^verbatim>\<open>operator[]\<close> does.
\<close>

fun map_put :: "LayerId \<Rightarrow> 'v \<Rightarrow> (LayerId \<times> 'v) list \<Rightarrow> (LayerId \<times> 'v) list" where
  "map_put k v [] = [(k, v)]"
| "map_put k v ((k', v') # rest) =
     (if k < k' then (k, v) # (k', v') # rest
      else if k = k' then (k, v) # rest
      else (k', v') # map_put k v rest)"

record edge_state =
  layer_markers :: "(LayerId \<times> Marker) list"
  num_since_last_insertion :: "LayerId \<rightharpoonup> nat"

definition counter_of :: "(LayerId \<rightharpoonup> nat) \<Rightarrow> LayerId \<Rightarrow> nat" where
  "counter_of m k = (case m k of None \<Rightarrow> 0 | Some c \<Rightarrow> c)"

text \<open>The first block of the loop body: the marker and the counter of a source layer
  are created when the layer is met for the first time.\<close>

definition new_layer_entry ::
  "(LayerId \<rightharpoonup> LayerConfig) \<Rightarrow> Node \<Rightarrow> Node \<Rightarrow> edge_state \<Rightarrow> error + edge_state" where
  "new_layer_entry configs source target st =
     (if map_of (layer_markers st) (n_layer source) = None then
        (case configs (n_layer source) of
           None \<Rightarrow> Inl OutOfRange
         | Some sc \<Rightarrow>
             let marker = makeNewEdgeList sc (n_layer source)
             in case configs (n_layer target) of
                  None \<Rightarrow> Inl OutOfRange
                | Some tc \<Rightarrow>
                    let marker = (if \<not> visualize tc then marker\<lparr>m_action := DELETE\<rparr> else marker)
                    in Inr (st\<lparr>layer_markers := map_put (n_layer source) marker (layer_markers st),
                               num_since_last_insertion :=
                                 (num_since_last_insertion st)(n_layer source \<mapsto> 0)\<rparr>))
      else Inr st)"

definition edge_color :: "LayerConfig \<Rightarrow> Node \<Rightarrow> Node \<Rightarrow> error + NodeColor" where
  "edge_color sc source target =
     (if interlayer_edge_use_color sc then
        (if use_edge_source sc then semantic_color (n_attributes source)
         else semantic_color (n_attributes target))
      else Inr NodeColor_Zero)"

text \<open>The two end points of a drawn edge, each lifted by the offset of its own layer.\<close>

definition edge_line ::
  "externals \<Rightarrow> VisualizerConfig \<Rightarrow> LayerConfig \<Rightarrow> LayerConfig \<Rightarrow> Node \<Rightarrow> Node \<Rightarrow> Point list" where
  "edge_line X visualizer_config sc tc source target =
     (let source_point = attr_position (n_attributes source);
          source_point = source_point\<lparr>p_z := dadd X (p_z source_point)
                                                (getZOffset X sc visualizer_config)\<rparr>;
          target_point = attr_position (n_attributes target);
          target_point = target_point\<lparr>p_z := dadd X (p_z target_point)
                                                (getZOffset X tc visualizer_config)\<rparr>
      in [source_point, target_point])"

text \<open>The end of the loop body, reached by an edge that is not skipped.\<close>

definition draw_edge ::
  "externals \<Rightarrow> VisualizerConfig \<Rightarrow> LayerConfig \<Rightarrow> LayerConfig \<Rightarrow> Node \<Rightarrow> Node
     \<Rightarrow> edge_state \<Rightarrow> error + edge_state" where
  "draw_edge X visualizer_config sc tc source target st =
     (case map_of (layer_markers st) (n_layer source) of
        None \<Rightarrow> Inl OutOfRange
      | Some marker \<Rightarrow>
          let marker = marker\<lparr>m_points := m_points marker
                                  @ edge_line X visualizer_config sc tc source target\<rparr>
          in case edge_color sc source target of
               Inl e \<Rightarrow> Inl e
             | Inr col \<Rightarrow>
                 let c = makeColorMsg X col (intralayer_edge_alpha sc);
                     marker = marker\<lparr>m_colors := m_colors marker @ [c, c]\<rparr>
                 in Inr (st\<lparr>layer_markers := map_put (n_layer source) marker (layer_markers st)\<rparr>))"

definition graph_edge_step ::
  "externals \<Rightarrow> SceneGraph \<Rightarrow> (LayerId \<rightharpoonup> LayerConfig) \<Rightarrow> VisualizerConfig \<Rightarrow> Edge
     \<Rightarrow> edge_state \<Rightarrow> error + edge_state" where
  "graph_edge_step X graph configs visualizer_config edge st =
     (case getNode graph (e_source edge) of
        None \<Rightarrow> Inl EmptyOptional
      | Some source \<Rightarrow>
     (case getNode graph (e_target edge) of
        None \<Rightarrow> Inl EmptyOptional
      | Some target \<Rightarrow>
     (case new_layer_entry configs source target st of
        Inl e \<Rightarrow> Inl e
      | Inr st \<Rightarrow>
     (case configs (n_layer source) of
        None \<Rightarrow> Inl OutOfRange
      | Some sc \<Rightarrow>
          if \<not> visualize sc then Inr st
          else
     (case configs (n_layer target) of
        None \<Rightarrow> Inl OutOfRange
      | Some tc \<Rightarrow>
          if \<not> visualize tc then Inr st
          else
            let num_between_insertions = interlayer_edge_insertion_skip sc;
                since = counter_of (num_since_last_insertion st) (n_layer source)
            in if since \<ge> num_between_insertions then
                 draw_edge X visualizer_config sc tc source target
                   (st\<lparr>num_since_last_insertion :=
                         (num_since_last_insertion st)(n_layer source \<mapsto> 0)\<rparr>)
               else
                 Inr (st\<lparr>num_since_last_insertion :=
                           (num_since_last_insertion st)(n_layer source \<mapsto> since + 1)\<rparr>))))))"

fun graph_edge_loop ::
  "externals \<Rightarrow> SceneGraph \<Rightarrow> (LayerId \<rightharpoonup> LayerConfig) \<Rightarrow> VisualizerConfig \<Rightarrow> Edge list
     \<Rightarrow> edge_state \<Rightarrow> error + edge_state" where
  "graph_edge_loop X graph configs visualizer_config [] st = Inr st"
| "graph_edge_loop X graph configs visualizer_config (edge # edges) st =
     (case graph_edge_step X graph configs visualizer_config edge st of
        Inl e \<Rightarrow> Inl e
      | Inr st' \<Rightarrow> graph_edge_loop X graph configs visualizer_config edges st')"

definition makeGraphEdgeMarkers ::
  "externals \<Rightarrow> SceneGraph \<Rightarrow> (LayerId \<rightharpoonup> LayerConfig) \<Rightarrow> VisualizerConfig
     \<Rightarrow> error + MarkerArray" where
  "makeGraphEdgeMarkers X graph configs visualizer_config =
     (case graph_edge_loop X graph configs visualizer_config (inter_layer_edges graph)
             \<lparr>layer_markers = [], num_since_last_insertion = Map.empty\<rparr> of
        Inl e \<Rightarrow> Inl e
      | Inr st \<Rightarrow> Inr (map snd (layer_markers st)))"

subsection \<open>Edges to the mesh\<close>

function mesh_vertex_loop ::
  "externals \<Rightarrow> LayerConfig \<Rightarrow> VisualizerConfig \<Rightarrow> Point \<Rightarrow> ColorRGBA \<Rightarrow> Point list \<Rightarrow> nat
     \<Rightarrow> Marker \<Rightarrow> Marker" where
  "mesh_vertex_loop X config visualizer_config center_point col mesh_points i marker =
     (if i < length mesh_points then
        let vertex = mesh_points ! i;
            vertex = (if \<not> collapse_layers visualizer_config
                      then vertex\<lparr>p_z := dadd X (p_z vertex) (mesh_layer_offset visualizer_config)\<rparr>
                      else vertex);
            marker = marker\<lparr>m_points := m_points marker @ [center_point, vertex],
                            m_colors := m_colors marker @ [col, col]\<rparr>
        in mesh_vertex_loop X config visualizer_config center_point col mesh_points
             (i + (interlayer_edge_insertion_skip config + 1)) marker
      else marker)"
  by pat_completeness auto
termination
  by (relation "measure (\<lambda>(X, config, vc, cp, col, mesh_points, i, marker). length mesh_points - i)")
     auto

declare mesh_vertex_loop.simps [simp del]

definition mesh_node_step ::
  "externals \<Rightarrow> LayerConfig \<Rightarrow> VisualizerConfig \<Rightarrow> SceneGraph \<Rightarrow> Node \<Rightarrow> Marker \<Rightarrow> error + Marker" where
  "mesh_node_step X config visualizer_config graph node marker =
     (case getMeshCloudForNode graph (n_id node) of
        None \<Rightarrow> Inr marker
      | Some mesh_points \<Rightarrow>
          if length mesh_points = 0 then Inr marker
          else
            (case semantic_color (n_attributes node) of
               Inl e \<Rightarrow> Inl e
             | Inr attrs_color \<Rightarrow>
                 let pos = attr_position (n_attributes node);
                     center_point = pos\<lparr>p_z := dadd X (p_z pos)
                                       (dmul X (mesh_edge_break_ratio visualizer_config)
                                               (getZOffset X config visualizer_config))\<rparr>;
                     centroid_location = pos\<lparr>p_z := dadd X (p_z pos)
                                                       (getZOffset X config visualizer_config)\<rparr>;
                     col = (if interlayer_edge_use_color config
                            then makeColorMsg X attrs_color (interlayer_edge_alpha config)
                            else makeColorMsg X NodeColor_Zero (interlayer_edge_alpha config));
                     marker = marker\<lparr>m_points := m_points marker @ [centroid_location, center_point],
                                     m_colors := m_colors marker @ [col, col]\<rparr>
                 in Inr (mesh_vertex_loop X config visualizer_config center_point col
                           mesh_points 0 marker)))"

fun mesh_node_loop ::
  "externals \<Rightarrow> LayerConfig \<Rightarrow> VisualizerConfig \<Rightarrow> SceneGraph \<Rightarrow> Node list \<Rightarrow> Marker
     \<Rightarrow> error + Marker" where
  "mesh_node_loop X config visualizer_config graph [] marker = Inr marker"
| "mesh_node_loop X config visualizer_config graph (node # nodes) marker =
     (case mesh_node_step X config visualizer_config graph node marker of
        Inl e \<Rightarrow> Inl e
      | Inr marker' \<Rightarrow> mesh_node_loop X config visualizer_config graph nodes marker')"

definition makeMeshEdgesMarker ::
  "externals \<Rightarrow> LayerConfig \<Rightarrow> VisualizerConfig \<Rightarrow> SceneGraph \<Rightarrow> SceneGraphLayer \<Rightarrow> string
     \<Rightarrow> error + Marker" where
  "makeMeshEdgesMarker X config visualizer_config graph layer marker_namespace =
     (let marker = new_Marker\<lparr>m_type := LINE_LIST, m_action := ADD, m_id := l_id layer,
                              m_ns := marker_namespace\<rparr>;
          marker = marker\<lparr>m_scale := (m_scale marker)\<lparr>v_x := interlayer_edge_scale config\<rparr>\<rparr>;
          marker = marker\<lparr>m_pose := fillPoseWithIdentity (m_pose marker)\<rparr>
      in mesh_node_loop X config visualizer_config graph (l_nodes layer) marker)"

subsection \<open>Intra-layer edges\<close>

text \<open>
  The loop of \<^verbatim>\<open>makeLayerEdgeMarkers\<close> draws the edge under the iterator and advances
  the iterator by the skip count plus one. Advancing beyond \<^verbatim>\<open>end()\<close> is undefined;
  the model makes it the error \<open>IteratorPastEnd\<close>, which stands for a run of which
  nothing is known, not even that it returns. The list argument is what lies between the
  iterator and the end.
\<close>

fun layer_edge_loop ::
  "externals \<Rightarrow> LayerConfig \<Rightarrow> SceneGraphLayer \<Rightarrow> VisualizerConfig \<Rightarrow> Edge list \<Rightarrow> Marker
     \<Rightarrow> error + Marker" where
  "layer_edge_loop X config layer visualizer_config [] marker = Inr marker"
| "layer_edge_loop X config layer visualizer_config (edge # rest) marker =
     (case getPosition layer (e_source edge) of
        Inl e \<Rightarrow> Inl e
      | Inr source \<Rightarrow>
          let source = source\<lparr>p_z := dadd X (p_z source) (getZOffset X config visualizer_config)\<rparr>;
              marker = marker\<lparr>m_points := m_points marker @ [source]\<rparr>
          in case getPosition layer (e_target edge) of
               Inl e \<Rightarrow> Inl e
             | Inr target \<Rightarrow>
                 let target = target\<lparr>p_z := dadd X (p_z target)
                                             (getZOffset X config visualizer_config)\<rparr>;
                     marker = marker\<lparr>m_points := m_points marker @ [target]\<rparr>
                 in if length rest < intralayer_edge_insertion_skip config then Inl IteratorPastEnd
                    else layer_edge_loop X config layer visualizer_config
                           (drop (intralayer_edge_insertion_skip config) rest) marker)"

definition makeLayerEdgeMarkers ::
  "externals \<Rightarrow> LayerConfig \<Rightarrow> SceneGraphLayer \<Rightarrow> VisualizerConfig \<Rightarrow> NodeColor \<Rightarrow> error + Marker" where
  "makeLayerEdgeMarkers X config layer visualizer_config col =
     (let marker = new_Marker\<lparr>m_type := LINE_LIST, m_id := 0,
                              m_ns := ''layer_'' @ to_string (l_id layer) @ ''_edges''\<rparr>
      in if \<not> visualize config then Inr (marker\<lparr>m_action := DELETE\<rparr>)
         else
           let marker = marker\<lparr>m_action := ADD\<rparr>;
               marker = marker\<lparr>m_scale := (m_scale marker)\<lparr>v_x := intralayer_edge_scale config\<rparr>,
                               m_color := makeColorMsg X col (intralayer_edge_alpha config)\<rparr>;
               marker = marker\<lparr>m_pose := fillPoseWithIdentity (m_pose marker)\<rparr>
           in layer_edge_loop X config layer visualizer_config (l_edges layer) marker)"


section \<open>scene\_graph\_visualizer.cpp\<close>

text \<open>
  The members of \<^verbatim>\<open>SceneGraphVisualizer\<close> that the methods below read or write. The
  five publishers are modelled by the sequence of what has been published, channel by
  channel, and the ROS console by the sequence of logged messages.
\<close>

datatype publisher =
    semantic_instance_centroid_pub
  | bounding_box_pub
  | text_markers_pub
  | edges_centroid_pcl_pub
  | edges_node_node_pub

record visualizer =
  need_redraw :: bool
  world_frame :: string
  scene_graph :: "SceneGraph option"
  visualizer_config :: VisualizerConfig
  layer_configs :: "LayerId \<rightharpoonup> LayerConfig"
  published :: "(publisher \<times> MarkerArray) list"
  ros_log :: "log_entry list"

definition publish :: "publisher \<Rightarrow> MarkerArray \<Rightarrow> visualizer \<Rightarrow> visualizer" where
  "publish pub markers s = s\<lparr>published := published s @ [(pub, markers)]\<rparr>"

definition configUpdateCb :: "VisualizerConfig \<Rightarrow> visualizer \<Rightarrow> visualizer" where
  "configUpdateCb config s = s\<lparr>visualizer_config := config, need_redraw := True\<rparr>"

definition layerConfigUpdateCb :: "LayerId \<Rightarrow> LayerConfig \<Rightarrow> visualizer \<Rightarrow> visualizer" where
  "layerConfigUpdateCb layer_id config s =
     s\<lparr>layer_configs := (layer_configs s)(layer_id \<mapsto> config), need_redraw := True\<rparr>"

text \<open>The argument of \<^verbatim>\<open>setGraph\<close> is a shared pointer: \<open>None\<close> is the null pointer.\<close>

definition setGraph :: "externals \<Rightarrow> SceneGraph option \<Rightarrow> visualizer \<Rightarrow> visualizer" where
  "setGraph X new_graph s =
     (let rejected = s\<lparr>ros_log := ros_log s
                         @ [ROS_WARN ''Request to visualize empty scene graph, skipping.'']\<rparr>
      in case new_graph of
           None \<Rightarrow> rejected
         | Some g \<Rightarrow>
             if graph_empty X g then rejected
             else s\<lparr>scene_graph := new_graph, need_redraw := True\<rparr>)"

definition fillHeader :: "visualizer \<Rightarrow> nat \<Rightarrow> Marker \<Rightarrow> Marker" where
  "fillHeader s current_time marker =
     marker\<lparr>m_header := \<lparr>stamp = current_time, frame_id = world_frame s\<rparr>\<rparr>"

definition makeDeleteMarker :: "nat \<Rightarrow> string \<Rightarrow> Marker" where
  "makeDeleteMarker ident marker_ns = new_Marker\<lparr>m_action := DELETE, m_id := ident, m_ns := marker_ns\<rparr>"

definition handleCentroids ::
  "externals \<Rightarrow> visualizer \<Rightarrow> SceneGraphLayer \<Rightarrow> LayerConfig \<Rightarrow> nat \<Rightarrow> MarkerArray
     \<Rightarrow> error + MarkerArray" where
  "handleCentroids X s layer config current_time markers =
     (let ns = ''layer_centroids''
      in if visualize config then
           (case makeCentroidMarkers X config layer (visualizer_config s) None ns of
              Inl e \<Rightarrow> Inl e
            | Inr marker \<Rightarrow> Inr (markers @ [fillHeader s current_time marker]))
         else Inr (markers @ [fillHeader s current_time (makeDeleteMarker (l_id layer) ns)]))"

definition handleMeshEdges ::
  "externals \<Rightarrow> visualizer \<Rightarrow> SceneGraphLayer \<Rightarrow> LayerConfig \<Rightarrow> nat \<Rightarrow> MarkerArray
     \<Rightarrow> error + MarkerArray" where
  "handleMeshEdges X s layer config current_time markers =
     (if l_id layer \<noteq> OBJECTS X then Inr markers
      else
        let ns = ''mesh_layer_edges''
        in if visualize config then
             (case scene_graph s of
                None \<Rightarrow> Inl NullPointer
              | Some held \<Rightarrow>
                  (case makeMeshEdgesMarker X config (visualizer_config s) held layer ns of
                     Inl e \<Rightarrow> Inl e
                   | Inr marker \<Rightarrow> Inr (markers @ [fillHeader s current_time marker])))
           else Inr (markers @ [fillHeader s current_time (makeDeleteMarker (l_id layer) ns)]))"

definition handleLabels ::
  "externals \<Rightarrow> visualizer \<Rightarrow> SceneGraphLayer \<Rightarrow> LayerConfig \<Rightarrow> nat \<Rightarrow> MarkerArray \<Rightarrow> MarkerArray" where
  "handleLabels X s layer config current_time markers =
     (let ns = ''layer_'' @ to_string (l_id layer) @ ''_text''
      in markers @
         map (\<lambda>node.
                if visualize config \<and> use_label config
                then fillHeader s current_time (makeTextMarker X config node (visualizer_config s) ns)
                else fillHeader s current_time (makeDeleteMarker (n_id node) ns))
             (l_nodes layer))"

text \<open>
  The loop of \<^verbatim>\<open>handleBoundingBoxes\<close> over the nodes still to visit. The state is the
  marker array it appends to and the messages logged. The \<^verbatim>\<open>catch\<close> block logs and
  executes \<^verbatim>\<open>return\<close>, which leaves the loop and the function.
\<close>

fun bounding_box_loop ::
  "externals \<Rightarrow> visualizer \<Rightarrow> string \<Rightarrow> LayerConfig \<Rightarrow> nat \<Rightarrow> Node list
     \<Rightarrow> MarkerArray \<times> log_entry list \<Rightarrow> error + (MarkerArray \<times> log_entry list)" where
  "bounding_box_loop X s ns config current_time [] st = Inr st"
| "bounding_box_loop X s ns config current_time (node # nodes) (markers, msgs) =
     (if visualize config \<and> use_bounding_box config then
        (case object_bounding_box (n_attributes node) of
           Inl e \<Rightarrow>
             if e = BadCast
             then Inr (markers, msgs @ [ROS_ERROR ''Bounding boxes enabled for non-object layer''])
             else Inl e
         | Inr b \<Rightarrow>
             (case makeBoundingBoxMarker X config node (visualizer_config s) ns of
                Inl e \<Rightarrow> Inl e
              | Inr (marker, logged) \<Rightarrow>
                  bounding_box_loop X s ns config current_time nodes
                    (markers @ [fillHeader s current_time marker], msgs @ logged)))
      else
        bounding_box_loop X s ns config current_time nodes
          (markers @ [fillHeader s current_time (makeDeleteMarker (n_id node) ns)], msgs))"

definition handleBoundingBoxes ::
  "externals \<Rightarrow> visualizer \<Rightarrow> SceneGraphLayer \<Rightarrow> LayerConfig \<Rightarrow> nat
     \<Rightarrow> MarkerArray \<times> log_entry list \<Rightarrow> error + (MarkerArray \<times> log_entry list)" where
  "handleBoundingBoxes X s layer config current_time st =
     bounding_box_loop X s (''layer_'' @ to_string (l_id layer) @ ''_bounding_boxes'')
       config current_time (l_nodes layer) st"

text \<open>The four local marker arrays of \<^verbatim>\<open>displayLayers\<close>.\<close>

record layer_batches =
  layer_centroids :: MarkerArray
  text_markers :: MarkerArray
  line_assoc_markers :: MarkerArray
  bounding_boxes :: MarkerArray

definition display_layer_step ::
  "externals \<Rightarrow> visualizer \<Rightarrow> nat \<Rightarrow> SceneGraphLayer \<Rightarrow> layer_batches \<times> log_entry list
     \<Rightarrow> error + (layer_batches \<times> log_entry list)" where
  "display_layer_step X s current_time layer st =
     (let (b, msgs) = st
      in case layer_configs s (l_id layer) of
           None \<Rightarrow>
             Inr (b, msgs @ [ROS_WARN (''failed to find config for layer '' @ to_string (l_id layer))])
         | Some config \<Rightarrow>
        (case handleCentroids X s layer config current_time (layer_centroids b) of
           Inl e \<Rightarrow> Inl e
         | Inr centroids \<Rightarrow>
        (case handleBoundingBoxes X s layer config current_time
                (handleLabels X s layer config current_time (text_markers b), msgs) of
           Inl e \<Rightarrow> Inl e
         | Inr (texts, msgs) \<Rightarrow>
        (case handleMeshEdges X s layer config current_time (line_assoc_markers b) of
           Inl e \<Rightarrow> Inl e
         | Inr lines \<Rightarrow>
             Inr (b\<lparr>layer_centroids := centroids, text_markers := texts,
                    line_assoc_markers := lines\<rparr>, msgs)))))"

fun display_layers_loop ::
  "externals \<Rightarrow> visualizer \<Rightarrow> nat \<Rightarrow> SceneGraphLayer list \<Rightarrow> layer_batches \<times> log_entry list
     \<Rightarrow> error + (layer_batches \<times> log_entry list)" where
  "display_layers_loop X s current_time [] st = Inr st"
| "display_layers_loop X s current_time (layer # layers) st =
     (case display_layer_step X s current_time layer st of
        Inl e \<Rightarrow> Inl e
      | Inr st' \<Rightarrow> display_layers_loop X s current_time layers st')"

definition flush_layers :: "layer_batches \<Rightarrow> visualizer \<Rightarrow> visualizer" where
  "flush_layers b s =
     (let s = (if layer_centroids b \<noteq> [] then publish semantic_instance_centroid_pub (layer_centroids b) s else s);
          s = (if bounding_boxes b \<noteq> [] then publish bounding_box_pub (bounding_boxes b) s else s);
          s = (if text_markers b \<noteq> [] then publish text_markers_pub (text_markers b) s else s);
          s = (if line_assoc_markers b \<noteq> [] then publish edges_centroid_pcl_pub (line_assoc_markers b) s else s)
      in s)"

definition displayLayers :: "externals \<Rightarrow> visualizer \<Rightarrow> SceneGraph \<Rightarrow> error + visualizer" where
  "displayLayers X s graph =
     (let current_time = now X
      in case display_layers_loop X s current_time (g_layers graph)
                (\<lparr>layer_centroids = [], text_markers = [], line_assoc_markers = [],
                  bounding_boxes = []\<rparr>, []) of
           Inl e \<Rightarrow> Inl e
         | Inr (b, msgs) \<Rightarrow> Inr (flush_layers b (s\<lparr>ros_log := ros_log s @ msgs\<rparr>)))"

definition getDeleteAllMarker :: MarkerArray where
  "getDeleteAllMarker = [new_Marker\<lparr>m_action := DELETEALL\<rparr>]"

definition clear :: "externals \<Rightarrow> visualizer \<Rightarrow> visualizer" where
  "clear X s =
     (let s = s\<lparr>scene_graph := None\<rparr>;
          curr_time = now X;
          marker = map (fillHeader s curr_time) getDeleteAllMarker;
          s = publish semantic_instance_centroid_pub marker s;
          s = publish bounding_box_pub marker s;
          s = publish edges_centroid_pcl_pub marker s;
          s = publish edges_node_node_pub marker s
      in publish text_markers_pub marker s)"

definition display_edge_step ::
  "externals \<Rightarrow> visualizer \<Rightarrow> nat \<Rightarrow> SceneGraphLayer \<Rightarrow> MarkerArray \<times> log_entry list
     \<Rightarrow> error + (MarkerArray \<times> log_entry list)" where
  "display_edge_step X s current_time layer st =
     (let (edge_markers, msgs) = st
      in if length (l_edges layer) = 0 then Inr (edge_markers, msgs)
         else
           (case layer_configs s (l_id layer) of
              None \<Rightarrow>
                Inr (edge_markers,
                     msgs @ [ROS_WARN (''Failed to find config for layer '' @ to_string (l_id layer))])
            | Some config \<Rightarrow>
                (case makeLayerEdgeMarkers X config layer (visualizer_config s) NodeColor_Zero of
                   Inl e \<Rightarrow> Inl e
                 | Inr layer_edge_marker \<Rightarrow>
                     Inr (edge_markers @ [fillHeader s current_time layer_edge_marker], msgs))))"

fun display_edges_loop ::
  "externals \<Rightarrow> visualizer \<Rightarrow> nat \<Rightarrow> SceneGraphLayer list \<Rightarrow> MarkerArray \<times> log_entry list
     \<Rightarrow> error + (MarkerArray \<times> log_entry list)" where
  "display_edges_loop X s current_time [] st = Inr st"
| "display_edges_loop X s current_time (layer # layers) st =
     (case display_edge_step X s current_time layer st of
        Inl e \<Rightarrow> Inl e
      | Inr st' \<Rightarrow> display_edges_loop X s current_time layers st')"

definition displayEdges :: "externals \<Rightarrow> visualizer \<Rightarrow> SceneGraph \<Rightarrow> error + visualizer" where
  "displayEdges X s graph =
     (let current_time = now X
      in case makeGraphEdgeMarkers X graph (layer_configs s) (visualizer_config s) of
           Inl e \<Rightarrow> Inl e
         | Inr edge_markers \<Rightarrow>
             (case display_edges_loop X s current_time (g_layers graph)
                     (map (fillHeader s current_time) edge_markers, []) of
                Inl e \<Rightarrow> Inl e
              | Inr (edge_markers, msgs) \<Rightarrow>
                  Inr (publish edges_node_node_pub edge_markers (s\<lparr>ros_log := ros_log s @ msgs\<rparr>))))"

text \<open>\<^verbatim>\<open>redraw\<close> returns the new state and the Boolean of the source; an exception
  that leaves \<^verbatim>\<open>displayLayers\<close> or \<^verbatim>\<open>displayEdges\<close> leaves \<^verbatim>\<open>redraw\<close> too, since
  nothing catches it.\<close>

definition redraw :: "externals \<Rightarrow> visualizer \<Rightarrow> error + (visualizer \<times> bool)" where
  "redraw X s =
     (case scene_graph s of
        None \<Rightarrow> Inr (s, False)
      | Some graph \<Rightarrow>
          if \<not> need_redraw s then Inr (s, False)
          else
            let s = s\<lparr>need_redraw := False\<rparr>
            in case displayLayers X s graph of
                 Inl e \<Rightarrow> Inl e
               | Inr s \<Rightarrow>
                   (case displayEdges X s graph of
                      Inl e \<Rightarrow> Inl e
                    | Inr s \<Rightarrow> Inr (s, True)))"

text \<open>The timer callback, which the scheduler calls on every tick.\<close>

definition displayLoop :: "externals \<Rightarrow> visualizer \<Rightarrow> error + visualizer" where
  "displayLoop X s = (case redraw X s of Inl e \<Rightarrow> Inl e | Inr (s', r) \<Rightarrow> Inr s')"


section \<open>Notions used in the statements\<close>

text \<open>The color message of a node whose semantic color can be read.\<close>

definition semantic_msg :: "externals \<Rightarrow> LayerConfig \<Rightarrow> Node \<Rightarrow> ColorRGBA" where
  "semantic_msg X config n =
     (case semantic_color (n_attributes n) of
        Inr c \<Rightarrow> makeColorMsg X c (marker_alpha config)
      | Inl e \<Rightarrow> makeColorMsg X sentinel_red (marker_alpha config))"

text \<open>
  Notions for the inter-layer edges. The layer of the source and of the target of an edge,
  when the end point resolves to a node; a layer is visible when it has a configuration
  with \<open>visualize\<close> on. An edge is eligible for the layer \<open>L\<close> when its source lies in
  \<open>L\<close> and both its layers are visible. \<open>line_of\<close> is the pair of points that a drawn
  edge contributes. \<open>every_nth k xs\<close> keeps the elements of \<open>xs\<close> whose position,
  counted from one, is a multiple of \<open>k\<close>.
\<close>

definition source_layer_of :: "SceneGraph \<Rightarrow> Edge \<Rightarrow> LayerId option" where
  "source_layer_of g e = map_option n_layer (getNode g (e_source e))"

definition target_layer_of :: "SceneGraph \<Rightarrow> Edge \<Rightarrow> LayerId option" where
  "target_layer_of g e = map_option n_layer (getNode g (e_target e))"

definition layer_visible :: "(LayerId \<rightharpoonup> LayerConfig) \<Rightarrow> LayerId option \<Rightarrow> bool" where
  "layer_visible configs l =
     (case l of None \<Rightarrow> False
      | Some L \<Rightarrow> (case configs L of None \<Rightarrow> False | Some c \<Rightarrow> visualize c))"

definition eligible :: "SceneGraph \<Rightarrow> (LayerId \<rightharpoonup> LayerConfig) \<Rightarrow> LayerId \<Rightarrow> Edge \<Rightarrow> bool" where
  "eligible g configs L e =
     (source_layer_of g e = Some L \<and> layer_visible configs (source_layer_of g e)
      \<and> layer_visible configs (target_layer_of g e))"

definition line_of ::
  "externals \<Rightarrow> SceneGraph \<Rightarrow> (LayerId \<rightharpoonup> LayerConfig) \<Rightarrow> VisualizerConfig \<Rightarrow> Edge \<Rightarrow> Point list" where
  "line_of X g configs vc e =
     (case (getNode g (e_source e), getNode g (e_target e)) of
        (Some source, Some target) \<Rightarrow>
          (case (configs (n_layer source), configs (n_layer target)) of
             (Some sc, Some tc) \<Rightarrow> edge_line X vc sc tc source target
           | _ \<Rightarrow> [])
      | _ \<Rightarrow> [])"

definition every_nth :: "nat \<Rightarrow> 'a list \<Rightarrow> 'a list" where
  "every_nth k xs = map (\<lambda>i. xs ! i) (filter (\<lambda>i. k dvd Suc i) [0..<length xs])"

text \<open>
  The invariant of the loop of \<open>makeGraphEdgeMarkers\<close> after the edges \<open>pre\<close>: the keys
  of the marker map are strictly increasing; a layer without marker has had no edge so far;
  a layer with a marker has its configuration, its marker holds the lines of every
  \<open>(N + 1)\<close>-th eligible edge so far, and its counter is the number of eligible edges so
  far modulo \<open>N + 1\<close>.
\<close>

definition layer_ok ::
  "externals \<Rightarrow> SceneGraph \<Rightarrow> (LayerId \<rightharpoonup> LayerConfig) \<Rightarrow> VisualizerConfig \<Rightarrow> Edge list
     \<Rightarrow> edge_state \<Rightarrow> LayerId \<Rightarrow> bool" where
  "layer_ok X g configs vc pre st L =
     (case map_of (layer_markers st) L of
        None \<Rightarrow> (\<forall>e \<in> set pre. source_layer_of g e \<noteq> Some L)
      | Some m \<Rightarrow>
          (\<exists>sc. configs L = Some sc \<and> m_id m = L
             \<and> m_points m = concat (map (line_of X g configs vc)
                                 (every_nth (Suc (interlayer_edge_insertion_skip sc))
                                    (filter (eligible g configs L) pre)))
             \<and> counter_of (num_since_last_insertion st) L =
                 length (filter (eligible g configs L) pre) mod Suc (interlayer_edge_insertion_skip sc)))"

definition edge_inv ::
  "externals \<Rightarrow> SceneGraph \<Rightarrow> (LayerId \<rightharpoonup> LayerConfig) \<Rightarrow> VisualizerConfig \<Rightarrow> Edge list
     \<Rightarrow> edge_state \<Rightarrow> bool" where
  "edge_inv X g configs vc pre st =
     (sorted_wrt (<) (map fst (layer_markers st)) \<and> (\<forall>L. layer_ok X g configs vc pre st L))"

text \<open>
  The markers that \<open>handleBoundingBoxes\<close> produces for one layer, and what one layer
  adds to the array \<open>text_markers\<close> of \<open>displayLayers\<close>: its labels, then its bounding
  boxes.
\<close>

definition bounding_box_markers ::
  "externals \<Rightarrow> visualizer \<Rightarrow> SceneGraphLayer \<Rightarrow> LayerConfig \<Rightarrow> nat \<Rightarrow> MarkerArray" where
  "bounding_box_markers X s layer config t =
     (case handleBoundingBoxes X s layer config t ([], []) of
        Inl e \<Rightarrow> []
      | Inr (markers, msgs) \<Rightarrow> markers)"

definition layer_texts :: "externals \<Rightarrow> visualizer \<Rightarrow> nat \<Rightarrow> SceneGraphLayer \<Rightarrow> MarkerArray" where
  "layer_texts X s t layer =
     (case layer_configs s (l_id layer) of
        None \<Rightarrow> []
      | Some config \<Rightarrow>
          handleLabels X s layer config t [] @ bounding_box_markers X s layer config t)"

text \<open>\<open>mk\<close> is the marker that \<open>handleBoundingBoxes\<close> appends for a node whose box it
  draws: what \<open>makeBoundingBoxMarker\<close> builds, with the header filled.\<close>

definition is_box_marker ::
  "externals \<Rightarrow> visualizer \<Rightarrow> LayerConfig \<Rightarrow> string \<Rightarrow> nat \<Rightarrow> Node \<Rightarrow> Marker \<Rightarrow> bool" where
  "is_box_marker X s config ns t node mk =
     (case makeBoundingBoxMarker X config node (visualizer_config s) ns of
        Inl e \<Rightarrow> False
      | Inr (marker, logged) \<Rightarrow>
          mk = fillHeader s t marker \<and> m_action mk = ADD \<and> m_type mk = CUBE)"

text \<open>What a pass has published, reduced to the action of each marker.\<close>

definition published_actions :: "visualizer \<Rightarrow> (publisher \<times> marker_action list) list" where
  "published_actions s = map (\<lambda>(pub, markers). (pub, map m_action markers)) (published s)"

definition pass_actions ::
  "error + (visualizer \<times> bool) \<Rightarrow> error + (publisher \<times> marker_action list) list" where
  "pass_actions r = (case r of Inl e \<Rightarrow> Inl e | Inr (s, b) \<Rightarrow> Inr (published_actions s))"

section \<open>Sample inputs\<close>

text \<open>
  An instance of the externals on which the model can be evaluated: arithmetic is exact on
  finite operands, a division by zero gives an infinity or no number, and an operand that is
  not finite gives no number.
\<close>

fun exact_div :: "double \<Rightarrow> double \<Rightarrow> double" where
  "exact_div (Fin a) (Fin b) =
     (if b = 0 then (if a = 0 then NaN else if 0 < a then PInf else NInf) else Fin (a / b))"
| "exact_div a b = NaN"

fun exact_add :: "double \<Rightarrow> double \<Rightarrow> double" where
  "exact_add (Fin a) (Fin b) = Fin (a + b)"
| "exact_add a b = NaN"

fun exact_sub :: "double \<Rightarrow> double \<Rightarrow> double" where
  "exact_sub (Fin a) (Fin b) = Fin (a - b)"
| "exact_sub a b = NaN"

fun exact_mul :: "double \<Rightarrow> double \<Rightarrow> double" where
  "exact_mul (Fin a) (Fin b) = Fin (a * b)"
| "exact_mul a b = NaN"

fun sample_color_msg :: "NodeColor \<Rightarrow> double \<Rightarrow> ColorRGBA" where
  "sample_color_msg (NodeColor r g b) a = \<lparr>c_r = Fin r, c_g = Fin g, c_b = Fin b, c_a = a\<rparr>"

definition sample_externals :: externals where
  "sample_externals =
     \<lparr>dadd = exact_add, dsub = exact_sub, dmul = exact_mul, ddiv = exact_div,
      getZOffset = (\<lambda>config visualizer_config. Fin 0),
      makeColorMsg = sample_color_msg,
      makeColorMsg1 = (\<lambda>c. sample_color_msg c (Fin 1)),
      interpolateColorMap = (\<lambda>hls ratio. NodeColor_Zero),
      getLabel = to_string,
      OBJECTS = 2, PLACES = 3,
      graph_empty = (\<lambda>g. concat (map l_nodes (g_layers g)) = []),
      now = 0\<rparr>"

definition sample_config :: LayerConfig where
  "sample_config =
     \<lparr>visualize = True, use_label = True, use_bounding_box = True, use_sphere_marker = False,
      marker_scale = Fin 1, marker_alpha = Fin 1, label_scale = Fin 1, label_height = Fin 1,
      bounding_box_alpha = Fin 1, interlayer_edge_scale = Fin 1, interlayer_edge_alpha = Fin 1,
      interlayer_edge_use_color = False, use_edge_source = True,
      interlayer_edge_insertion_skip = 1,
      intralayer_edge_scale = Fin 1, intralayer_edge_alpha = Fin 1,
      intralayer_edge_insertion_skip = 0\<rparr>"

definition sample_visualizer_config :: VisualizerConfig where
  "sample_visualizer_config =
     \<lparr>places_min_distance = Fin 0, places_max_distance = Fin 1,
      places_min_hue = Fin 0, places_max_hue = Fin 1,
      places_min_saturation = Fin 0, places_max_saturation = Fin 1,
      places_min_luminance = Fin 0, places_max_luminance = Fin 1,
      color_places_by_distance = False, collapse_layers = False,
      mesh_edge_break_ratio = Fin 0, mesh_layer_offset = Fin 0\<rparr>"

definition sample_box :: BoundingBox where
  "sample_box =
     \<lparr>bb_type = AABB,
      bb_min = \<lparr>v_x = Fin 0, v_y = Fin 0, v_z = Fin 0\<rparr>,
      bb_max = \<lparr>v_x = Fin 1, v_y = Fin 1, v_z = Fin 1\<rparr>,
      world_P_center = zero_point,
      world_R_center = \<lparr>q_x = Fin 0, q_y = Fin 0, q_z = Fin 0, q_w = Fin 1\<rparr>\<rparr>"

text \<open>Three nodes of layer 2: one with a semantic color only, one with plain attributes,
  one object with a bounding box.\<close>

definition semantic_node :: Node where
  "semantic_node = \<lparr>n_id = 1, n_layer = 2,
                    n_attributes = SemanticNodeAttributes zero_point (NodeColor 0 1 0)\<rparr>"

definition plain_node :: Node where
  "plain_node = \<lparr>n_id = 2, n_layer = 2, n_attributes = PlainAttributes zero_point\<rparr>"

definition object_node :: Node where
  "object_node = \<lparr>n_id = 3, n_layer = 2,
                  n_attributes = ObjectNodeAttributes (zero_point\<lparr>p_x := Fin 1\<rparr>)
                                   (NodeColor 0 0 1) sample_box\<rparr>"

definition mixed_layer :: SceneGraphLayer where
  "mixed_layer = \<lparr>l_id = 2, l_nodes = [semantic_node, plain_node, object_node], l_edges = []\<rparr>"

text \<open>
  A graph of two layers: two objects in layer 2, two places in layer 3 joined by one edge
  of that layer, and four edges from the places (the parents) to the objects.
\<close>

definition object_node_b :: Node where
  "object_node_b = \<lparr>n_id = 4, n_layer = 2,
                    n_attributes = ObjectNodeAttributes (zero_point\<lparr>p_x := Fin 2\<rparr>)
                                     (NodeColor 0 0 1) sample_box\<rparr>"

definition place_a :: Node where
  "place_a = \<lparr>n_id = 10, n_layer = 3,
              n_attributes = PlaceNodeAttributes (zero_point\<lparr>p_y := Fin 1\<rparr>)
                               (NodeColor 1 1 0) (Fin 1)\<rparr>"

definition place_b :: Node where
  "place_b = \<lparr>n_id = 11, n_layer = 3,
              n_attributes = PlaceNodeAttributes (zero_point\<lparr>p_y := Fin 2\<rparr>)
                               (NodeColor 1 1 0) (Fin 2)\<rparr>"

definition objects_layer :: SceneGraphLayer where
  "objects_layer = \<lparr>l_id = 2, l_nodes = [object_node, object_node_b], l_edges = []\<rparr>"

definition places_layer :: SceneGraphLayer where
  "places_layer = \<lparr>l_id = 3, l_nodes = [place_a, place_b],
                   l_edges = [\<lparr>e_source = 10, e_target = 11\<rparr>]\<rparr>"

definition sample_graph :: SceneGraph where
  "sample_graph =
     \<lparr>g_layers = [objects_layer, places_layer],
      inter_layer_edges = [\<lparr>e_source = 10, e_target = 3\<rparr>, \<lparr>e_source = 10, e_target = 4\<rparr>,
                           \<lparr>e_source = 11, e_target = 3\<rparr>, \<lparr>e_source = 11, e_target = 4\<rparr>],
      getMeshCloudForNode = (\<lambda>i. None)\<rparr>"

definition edgeless_graph :: SceneGraph where
  "edgeless_graph =
     \<lparr>g_layers = [objects_layer], inter_layer_edges = [], getMeshCloudForNode = (\<lambda>i. None)\<rparr>"

definition empty_graph :: SceneGraph where
  "empty_graph = \<lparr>g_layers = [], inter_layer_edges = [], getMeshCloudForNode = (\<lambda>i. None)\<rparr>"

definition sample_configs :: "LayerId \<rightharpoonup> LayerConfig" where
  "sample_configs = [2 \<mapsto> sample_config, 3 \<mapsto> sample_config]"

text \<open>A visualizer that holds the sample graph and is due for a redraw.\<close>

definition sample_visualizer :: visualizer where
  "sample_visualizer =
     \<lparr>need_redraw = True, world_frame = ''world'', scene_graph = Some sample_graph,
      visualizer_config = sample_visualizer_config, layer_configs = sample_configs,
      published = [], ros_log = []\<rparr>"

text \<open>The same visualizer when no configuration is registered for layer 3.\<close>

definition unconfigured_visualizer :: visualizer where
  "unconfigured_visualizer = sample_visualizer\<lparr>layer_configs := [2 \<mapsto> sample_config]\<rparr>"

text \<open>A visualizer whose only layer is switched off and whose graph has no edge.\<close>

definition hidden_visualizer :: visualizer where
  "hidden_visualizer =
     sample_visualizer\<lparr>scene_graph := Some edgeless_graph,
                       layer_configs := [2 \<mapsto> sample_config\<lparr>visualize := False\<rparr>]\<rparr>"

text \<open>A layer of objects with one node of plain attributes in the middle.\<close>

definition interrupted_layer :: SceneGraphLayer where
  "interrupted_layer = \<lparr>l_id = 2, l_nodes = [object_node, plain_node, object_node_b], l_edges = []\<rparr>"

section \<open>Properties\<close>

subsection \<open>The ratio\<close>

text \<open>
  C7. \<open>getRatio\<close> is total: whatever the three doubles are, and whatever the machine
  computes for the difference and the quotient, the result is a finite number between 0
  and 1, and it is 0 whenever the quotient \<open>(value - min) / (max - min)\<close> is not finite.
\<close>

theorem getRatio_total:
  "(\<exists>r. getRatio X mn mx v = Fin r \<and> 0 \<le> r \<and> r \<le> 1) \<and>
   (\<not> isfinite (ddiv X (dsub X v mn) (dsub X mx mn)) \<longrightarrow> getRatio X mn mx v = Fin 0)"
  by (cases "ddiv X (dsub X v mn) (dsub X mx mn)") (auto simp: getRatio_def Let_def)

theorem getRatio_total_witness:
  "\<not> isfinite (ddiv sample_externals (dsub sample_externals (Fin 2) (Fin 1))
                                     (dsub sample_externals (Fin 1) (Fin 1))) \<and>
   getRatio sample_externals (Fin 1) (Fin 1) (Fin 2) = Fin 0"
  using getRatio_total [of sample_externals "Fin 1" "Fin 1" "Fin 2"]
  by (simp add: sample_externals_def)

subsection \<open>Setting the graph\<close>

text \<open>
  C9. A call of \<open>setGraph\<close> with the null pointer or with an empty graph is rejected with
  a warning: the held graph, the dirty flag, the configurations and everything published so
  far are unchanged; only the warning is added to the log.
\<close>

theorem setGraph_rejects:
  assumes "new_graph = None \<or> (\<exists>g. new_graph = Some g \<and> graph_empty X g)"
  shows "setGraph X new_graph s =
           s\<lparr>ros_log := ros_log s @ [ROS_WARN ''Request to visualize empty scene graph, skipping.'']\<rparr>
         \<and> scene_graph (setGraph X new_graph s) = scene_graph s
         \<and> need_redraw (setGraph X new_graph s) = need_redraw s
         \<and> published (setGraph X new_graph s) = published s"
  using assms by (auto simp: setGraph_def Let_def)


theorem setGraph_rejects_witness:
  "setGraph sample_externals (Some empty_graph) sample_visualizer =
     sample_visualizer\<lparr>ros_log := [ROS_WARN ''Request to visualize empty scene graph, skipping.'']\<rparr>
   \<and> scene_graph (setGraph sample_externals (Some empty_graph) sample_visualizer) = Some sample_graph
   \<and> need_redraw (setGraph sample_externals (Some empty_graph) sample_visualizer)
   \<and> published (setGraph sample_externals (Some empty_graph) sample_visualizer) = []"
  using setGraph_rejects [of "Some empty_graph" sample_externals sample_visualizer]
  by (simp add: sample_externals_def empty_graph_def sample_visualizer_def)

subsection \<open>Centroids\<close>

lemma semantic_color_error: "semantic_color a = Inl e \<Longrightarrow> e = BadCast"
  by (cases a) auto

lemma centroid_loop_append:
  "centroid_loop X config lid vc lc (xs @ ys) st =
     (case centroid_loop X config lid vc lc xs st of
        Inl e \<Rightarrow> Inl e
      | Inr st' \<Rightarrow> centroid_loop X config lid vc lc ys st')"
  by (induction xs arbitrary: st) (auto split: sum.splits)

text \<open>Once the flag is down, every further node gets the sentinel and nothing is raised.\<close>

lemma centroid_loop_degraded:
  "\<exists>m'. centroid_loop X config lid vc None nodes (False, m) = Inr (False, m') \<and>
        m_colors m' = m_colors m @ replicate (length nodes) (makeColorMsg X sentinel_red (marker_alpha config))"
proof (induction nodes arbitrary: m)
  case Nil
  then show ?case by simp
next
  case (Cons n nodes)
  let ?red = "makeColorMsg X sentinel_red (marker_alpha config)"
  obtain m1 where step: "centroid_step X config lid vc None n (False, m) = Inr (False, m1)"
    and col: "m_colors m1 = m_colors m @ [?red]"
    by (simp add: centroid_step_def Let_def)
  from Cons.IH [of m1] obtain m' where
    "centroid_loop X config lid vc None nodes (False, m1) = Inr (False, m')"
    "m_colors m' = m_colors m1 @ replicate (length nodes) ?red" by blast
  with step col show ?case by (simp add: replicate_append_same)
qed

lemma centroid_loop_valid:
  assumes "\<not> (color_places_by_distance vc \<and> lid = PLACES X)"
    and "\<forall>n \<in> set nodes. semantic_color (n_attributes n) \<noteq> Inl BadCast"
  shows "\<exists>m'. centroid_loop X config lid vc None nodes (True, m) = Inr (True, m') \<and>
        m_colors m' = m_colors m @ map (semantic_msg X config) nodes"
  using assms(2)
proof (induction nodes arbitrary: m)
  case Nil
  then show ?case by simp
next
  case (Cons n nodes)
  from Cons.prems obtain c where c: "semantic_color (n_attributes n) = Inr c"
    by (cases "semantic_color (n_attributes n)") (auto dest: semantic_color_error)
  obtain m1 where step: "centroid_step X config lid vc None n (True, m) = Inr (True, m1)"
    and col: "m_colors m1 = m_colors m @ [semantic_msg X config n]"
    using assms(1) c by (auto simp: centroid_step_def Let_def semantic_msg_def)
  from Cons.IH [of m1] Cons.prems obtain m' where
    "centroid_loop X config lid vc None nodes (True, m1) = Inr (True, m')"
    "m_colors m' = m_colors m1 @ map (semantic_msg X config) nodes" by auto
  with step col show ?case by simp
qed

lemma centroid_step_mismatch:
  assumes "\<not> (color_places_by_distance vc \<and> lid = PLACES X)"
    and "semantic_color (n_attributes n) = Inl BadCast"
  shows "\<exists>m'. centroid_step X config lid vc None n (True, m) = Inr (False, m') \<and>
        m_colors m' = m_colors m @ [makeColorMsg X sentinel_red (marker_alpha config)]"
  using assms by (auto simp: centroid_step_def Let_def)

text \<open>
  C5. In \<open>makeCentroidMarkers\<close> without a layer color, on a layer that is not colored by
  distance: let \<open>bad\<close> be the first node whose semantic color cannot be read (the cast
  fails). Then the builder returns a marker (no exception escapes); the nodes before \<open>bad\<close>
  have their own semantic colors, and \<open>bad\<close> and every node after it have the sentinel red.
\<close>

theorem makeCentroidMarkers_degrades:
  assumes "\<not> (color_places_by_distance vc \<and> l_id layer = PLACES X)"
    and "l_nodes layer = pre @ bad # post"
    and "\<forall>n \<in> set pre. semantic_color (n_attributes n) \<noteq> Inl BadCast"
    and "semantic_color (n_attributes bad) = Inl BadCast"
  shows "\<exists>m. makeCentroidMarkers X config layer vc None ns = Inr m \<and>
           m_colors m = map (semantic_msg X config) pre
             @ replicate (Suc (length post)) (makeColorMsg X sentinel_red (marker_alpha config))"
proof -
  let ?red = "makeColorMsg X sentinel_red (marker_alpha config)"
  define m0 where "m0 = (new_Marker\<lparr>m_type := (if use_sphere_marker config then SPHERE_LIST else CUBE_LIST),
                              m_action := ADD, m_id := l_id layer, m_ns := ns,
                              m_scale := \<lparr>v_x = marker_scale config, v_y = marker_scale config,
                                          v_z = marker_scale config\<rparr>\<rparr>)
                       \<lparr>m_pose := fillPoseWithIdentity (m_pose new_Marker)\<rparr>"
  have m0: "m_colors m0 = []" by (simp add: m0_def new_Marker_def)
  from centroid_loop_valid [OF assms(1) assms(3), of config m0] obtain m1 where
    1: "centroid_loop X config (l_id layer) vc None pre (True, m0) = Inr (True, m1)"
    and c1: "m_colors m1 = map (semantic_msg X config) pre" using m0 by auto
  from centroid_step_mismatch [OF assms(1) assms(4), of config m1] obtain m2 where
    2: "centroid_step X config (l_id layer) vc None bad (True, m1) = Inr (False, m2)"
    and c2: "m_colors m2 = m_colors m1 @ [?red]" by blast
  from centroid_loop_degraded [of X config "l_id layer" vc post m2] obtain m3 where
    3: "centroid_loop X config (l_id layer) vc None post (False, m2) = Inr (False, m3)"
    and c3: "m_colors m3 = m_colors m2 @ replicate (length post) ?red" by blast
  have "centroid_loop X config (l_id layer) vc None (l_nodes layer) (True, m0) = Inr (False, m3)"
    using 1 2 3 by (simp add: assms(2) centroid_loop_append)
  then have "makeCentroidMarkers X config layer vc None ns = Inr m3"
    by (simp add: makeCentroidMarkers_def Let_def m0_def)
  moreover have "m_colors m3 = map (semantic_msg X config) pre @ replicate (Suc (length post)) ?red"
    using c1 c2 c3 by (simp add: replicate_append_same)
  ultimately show ?thesis by blast
qed

theorem makeCentroidMarkers_degrades_witness:
  "\<exists>m. makeCentroidMarkers sample_externals sample_config mixed_layer sample_visualizer_config
          None ''layer_centroids'' = Inr m \<and>
       m_colors m = [\<lparr>c_r = Fin 0, c_g = Fin 1, c_b = Fin 0, c_a = Fin 1\<rparr>,
                     \<lparr>c_r = Fin 1, c_g = Fin 0, c_b = Fin 0, c_a = Fin 1\<rparr>,
                     \<lparr>c_r = Fin 1, c_g = Fin 0, c_b = Fin 0, c_a = Fin 1\<rparr>]"
  using makeCentroidMarkers_degrades [of sample_visualizer_config mixed_layer sample_externals
          "[semantic_node]" plain_node "[object_node]" sample_config "''layer_centroids''"]
  by (simp add: sample_visualizer_config_def mixed_layer_def sample_externals_def
        semantic_node_def plain_node_def object_node_def sample_config_def semantic_msg_def
        sentinel_red_def)



subsection \<open>Bounding boxes\<close>

lemma object_bounding_box_error: "object_bounding_box a = Inl e \<Longrightarrow> e = BadCast"
  by (cases a) auto

lemma makeBoundingBoxMarker_object:
  assumes "object_bounding_box (n_attributes node) = Inr b"
  shows "\<exists>marker lg. makeBoundingBoxMarker X config node vc ns = Inr (marker, lg) \<and>
           m_action marker = ADD \<and> m_type marker = CUBE"
proof -
  from assms obtain p c where "n_attributes node = ObjectNodeAttributes p c b"
    by (cases "n_attributes node") auto
  then show ?thesis
    by (cases "bb_type b") (simp_all add: makeBoundingBoxMarker_def Let_def new_Marker_def)
qed

lemma fillHeader_fields [simp]:
  "m_id (fillHeader s t m) = m_id m" "m_action (fillHeader s t m) = m_action m"
  "m_type (fillHeader s t m) = m_type m" "m_ns (fillHeader s t m) = m_ns m"
  "m_points (fillHeader s t m) = m_points m" "m_colors (fillHeader s t m) = m_colors m"
  by (simp_all add: fillHeader_def)

lemma bounding_box_loop_stops:
  assumes "visualize config" "use_bounding_box config"
    and "\<forall>n \<in> set pre. object_bounding_box (n_attributes n) \<noteq> Inl BadCast"
    and "object_bounding_box (n_attributes bad) = Inl BadCast"
  shows "\<exists>new logged.
           bounding_box_loop X s ns config t (pre @ bad # post) (markers, msgs) =
             Inr (markers @ new, msgs @ logged @ [ROS_ERROR ''Bounding boxes enabled for non-object layer''])
           \<and> list_all2 (is_box_marker X s config ns t) pre new"
  using assms(3)
proof (induction pre arbitrary: markers msgs)
  case Nil
  show ?case using assms(1,2,4) by simp
next
  case (Cons n pre)
  from Cons.prems obtain b where b: "object_bounding_box (n_attributes n) = Inr b"
    by (cases "object_bounding_box (n_attributes n)") (auto dest: object_bounding_box_error)
  from makeBoundingBoxMarker_object [OF b, of X config "visualizer_config s" ns]
  obtain marker lg where mk: "makeBoundingBoxMarker X config n (visualizer_config s) ns = Inr (marker, lg)"
    and f: "m_action marker = ADD" "m_type marker = CUBE" by blast
  from Cons.IH [of "markers @ [fillHeader s t marker]" "msgs @ lg"] Cons.prems
  obtain new logged where
    l: "bounding_box_loop X s ns config t (pre @ bad # post) (markers @ [fillHeader s t marker], msgs @ lg) =
          Inr ((markers @ [fillHeader s t marker]) @ new,
               (msgs @ lg) @ logged @ [ROS_ERROR ''Bounding boxes enabled for non-object layer''])"
    and a: "list_all2 (is_box_marker X s config ns t) pre new"
    by auto
  have "bounding_box_loop X s ns config t ((n # pre) @ bad # post) (markers, msgs) =
          Inr (markers @ (fillHeader s t marker # new),
               msgs @ (lg @ logged) @ [ROS_ERROR ''Bounding boxes enabled for non-object layer''])"
    using assms(1,2) b mk l by simp
  moreover have "list_all2 (is_box_marker X s config ns t) (n # pre) (fillHeader s t marker # new)"
    using a f mk by (simp add: is_box_marker_def)
  ultimately show ?case by blast
qed

text \<open>
  C1, as the code has it. In a layer drawn with bounding boxes enabled, let \<open>bad\<close> be the
  first node whose attributes are not of the object kind. \<open>handleBoundingBoxes\<close> logs one
  error there and returns without raising: the nodes before \<open>bad\<close> have their
  bounding-box markers, and neither \<open>bad\<close> nor any node after it adds a marker, whatever
  the attributes of the later nodes are.
\<close>

theorem handleBoundingBoxes_stops:
  assumes "visualize config" "use_bounding_box config"
    and "l_nodes layer = pre @ bad # post"
    and "\<forall>n \<in> set pre. object_bounding_box (n_attributes n) \<noteq> Inl BadCast"
    and "object_bounding_box (n_attributes bad) = Inl BadCast"
  shows "\<exists>new logged.
           handleBoundingBoxes X s layer config t (markers, msgs) =
             Inr (markers @ new, msgs @ logged @ [ROS_ERROR ''Bounding boxes enabled for non-object layer''])
           \<and> list_all2 (is_box_marker X s config
                          (''layer_'' @ to_string (l_id layer) @ ''_bounding_boxes'') t) pre new"
  unfolding handleBoundingBoxes_def assms(3)
  by (rule bounding_box_loop_stops [OF assms(1,2,4,5)])

text \<open>
  The claim as the specification states it fails: in \<open>mixed_layer\<close> the first node has
  semantic attributes only, and the object node that follows, whose attributes are valid,
  gets no bounding-box marker.
\<close>

theorem handleBoundingBoxes_counterexample:
  "object_bounding_box (n_attributes object_node) = Inr sample_box \<and>
   object_node \<in> set (l_nodes mixed_layer) \<and> visualize sample_config \<and> use_bounding_box sample_config \<and>
   handleBoundingBoxes sample_externals sample_visualizer mixed_layer sample_config 0 ([], []) =
     Inr ([], [ROS_ERROR ''Bounding boxes enabled for non-object layer''])"
  by (simp add: handleBoundingBoxes_def mixed_layer_def semantic_node_def object_node_def
        sample_config_def)

theorem handleBoundingBoxes_stops_witness:
  "\<exists>new logged.
     handleBoundingBoxes sample_externals sample_visualizer interrupted_layer sample_config 0 ([], []) =
       Inr (new, logged @ [ROS_ERROR ''Bounding boxes enabled for non-object layer''])
     \<and> list_all2 (is_box_marker sample_externals sample_visualizer sample_config
                    (''layer_'' @ to_string (l_id interrupted_layer) @ ''_bounding_boxes'') 0)
          [object_node] new"
  using handleBoundingBoxes_stops [of sample_config interrupted_layer "[object_node]" plain_node
          "[object_node_b]" sample_externals sample_visualizer 0 "[]" "[]"]
  by (simp add: sample_config_def interrupted_layer_def object_node_def plain_node_def)

lemma bounding_box_loop_acc:
  "bounding_box_loop X s ns config t nodes (ms0, lg0) =
     (case bounding_box_loop X s ns config t nodes ([], []) of
        Inl e \<Rightarrow> Inl e
      | Inr (ms1, lg1) \<Rightarrow> Inr (ms0 @ ms1, lg0 @ lg1))"
proof (induction nodes arbitrary: ms0 lg0)
  case Nil
  then show ?case by simp
next
  case (Cons n nodes)
  note IH = Cons.IH
  show ?case
  proof (cases "visualize config \<and> use_bounding_box config")
    case False
    let ?d = "fillHeader s t (makeDeleteMarker (n_id n) ns)"
    from False have c: "(visualize config \<and> use_bounding_box config) = False" by simp
    have eq: "bounding_box_loop X s ns config t (n # nodes) (ms, lg) =
                bounding_box_loop X s ns config t nodes (ms @ [?d], lg)" for ms lg
      by (simp only: bounding_box_loop.simps c if_False)
    show ?thesis
      unfolding eq
      by (simp add: IH [of "ms0 @ [?d]" lg0] IH [of "[?d]" "[]"] split: sum.splits prod.splits)
  next
    case True
    show ?thesis
    proof (cases "object_bounding_box (n_attributes n)")
      case (Inl e)
      then show ?thesis using True by (auto dest: object_bounding_box_error)
    next
      case (Inr b)
      show ?thesis
      proof (cases "makeBoundingBoxMarker X config n (visualizer_config s) ns")
        case (Inl e)
        then show ?thesis using True Inr by simp
      next
        case mk: (Inr p)
        obtain marker logged where p: "p = (marker, logged)" by (cases p)
        let ?m = "fillHeader s t marker"
        show ?thesis using True Inr mk p
          by (simp add: IH [of "ms0 @ [?m]" "lg0 @ logged"] IH [of "[?m]" logged]
                split: sum.splits prod.splits)
      qed
    qed
  qed
qed

subsection \<open>Displaying the layers and the tick\<close>

lemma handleLabels_acc:
  "handleLabels X s layer config t ms = ms @ handleLabels X s layer config t []"
  by (simp add: handleLabels_def Let_def)

lemma handleBoundingBoxes_acc:
  assumes "handleBoundingBoxes X s layer config t (ms0, lg0) = Inr (ms, lg)"
  shows "ms = ms0 @ bounding_box_markers X s layer config t"
  using assms
  unfolding handleBoundingBoxes_def bounding_box_markers_def
  by (subst (asm) bounding_box_loop_acc) (auto split: sum.splits prod.splits)

lemma display_layer_step_texts:
  assumes "display_layer_step X s t layer (b, msgs) = Inr (b', msgs')"
  shows "text_markers b' = text_markers b @ layer_texts X s t layer \<and>
         bounding_boxes b' = bounding_boxes b"
proof (cases "layer_configs s (l_id layer)")
  case None
  with assms show ?thesis by (auto simp: display_layer_step_def layer_texts_def)
next
  case (Some config)
  from assms Some obtain centroids texts lines where
    hb: "handleBoundingBoxes X s layer config t
           (handleLabels X s layer config t (text_markers b), msgs) = Inr (texts, msgs')"
    and b': "b' = b\<lparr>layer_centroids := centroids, text_markers := texts, line_assoc_markers := lines\<rparr>"
    by (auto simp: display_layer_step_def split: sum.splits prod.splits)
  from handleBoundingBoxes_acc [OF hb]
  have "texts = handleLabels X s layer config t (text_markers b) @ bounding_box_markers X s layer config t" .
  then have "texts = text_markers b @ layer_texts X s t layer"
    by (subst (asm) handleLabels_acc) (simp add: layer_texts_def Some)
  with b' show ?thesis by simp
qed

lemma display_layers_loop_texts:
  assumes "display_layers_loop X s t layers (b, msgs) = Inr (b', msgs')"
  shows "text_markers b' = text_markers b @ concat (map (layer_texts X s t) layers) \<and>
         bounding_boxes b' = bounding_boxes b"
  using assms
proof (induction layers arbitrary: b msgs)
  case Nil
  then show ?case by simp
next
  case (Cons l layers)
  from Cons.prems obtain b1 msgs1 where
    1: "display_layer_step X s t l (b, msgs) = Inr (b1, msgs1)"
    and 2: "display_layers_loop X s t layers (b1, msgs1) = Inr (b', msgs')"
    by (auto split: sum.splits)
  from display_layer_step_texts [OF 1] Cons.IH [OF 2] show ?case by simp
qed

lemma publish_simps [simp]:
  "published (publish p ms s) = published s @ [(p, ms)]"
  "need_redraw (publish p ms s) = need_redraw s"
  "scene_graph (publish p ms s) = scene_graph s"
  "ros_log (publish p ms s) = ros_log s"
  "layer_configs (publish p ms s) = layer_configs s"
  "visualizer_config (publish p ms s) = visualizer_config s"
  "world_frame (publish p ms s) = world_frame s"
  by (simp_all add: publish_def)

lemma flush_layers_published:
  "published (flush_layers b s) = published s @
     filter (\<lambda>pm. snd pm \<noteq> [])
       [(semantic_instance_centroid_pub, layer_centroids b), (bounding_box_pub, bounding_boxes b),
        (text_markers_pub, text_markers b), (edges_centroid_pcl_pub, line_assoc_markers b)]"
  by (simp add: flush_layers_def Let_def)

lemma flush_layers_fields [simp]:
  "need_redraw (flush_layers b s) = need_redraw s"
  "scene_graph (flush_layers b s) = scene_graph s"
  "ros_log (flush_layers b s) = ros_log s"
  "layer_configs (flush_layers b s) = layer_configs s"
  "visualizer_config (flush_layers b s) = visualizer_config s"
  "world_frame (flush_layers b s) = world_frame s"
  by (simp_all add: flush_layers_def Let_def)

lemma displayLayers_result:
  assumes "displayLayers X s g = Inr s'"
  shows "\<exists>b msgs. display_layers_loop X s (now X) (g_layers g)
                    (\<lparr>layer_centroids = [], text_markers = [], line_assoc_markers = [],
                      bounding_boxes = []\<rparr>, []) = Inr (b, msgs)
              \<and> s' = flush_layers b (s\<lparr>ros_log := ros_log s @ msgs\<rparr>)"
  using assms by (auto simp: displayLayers_def Let_def split: sum.splits prod.splits)

text \<open>
  C10. In a layer-display pass that returns, nothing is published on the bounding-box
  channel; what each layer adds to the label batch is its labels followed by its
  bounding-box markers, and this batch, when it is not empty, is what is published on the
  label channel.
\<close>

theorem displayLayers_boxes_on_label_channel:
  assumes "displayLayers X s g = Inr s'"
  shows "\<exists>new. published s' = published s @ new
           \<and> (\<forall>ms. (bounding_box_pub, ms) \<notin> set new)
           \<and> (concat (map (layer_texts X s (now X)) (g_layers g)) \<noteq> [] \<longrightarrow>
                (text_markers_pub, concat (map (layer_texts X s (now X)) (g_layers g))) \<in> set new)
           \<and> (\<forall>ms. (text_markers_pub, ms) \<in> set new \<longrightarrow>
                ms = concat (map (layer_texts X s (now X)) (g_layers g)))"
proof -
  from displayLayers_result [OF assms] obtain b msgs where
    loop: "display_layers_loop X s (now X) (g_layers g)
             (\<lparr>layer_centroids = [], text_markers = [], line_assoc_markers = [],
               bounding_boxes = []\<rparr>, []) = Inr (b, msgs)"
    and s': "s' = flush_layers b (s\<lparr>ros_log := ros_log s @ msgs\<rparr>)" by blast
  from display_layers_loop_texts [OF loop]
  have t: "text_markers b = concat (map (layer_texts X s (now X)) (g_layers g))"
    and bb: "bounding_boxes b = []" by simp_all
  show ?thesis
    by (rule exI [of _ "filter (\<lambda>pm. snd pm \<noteq> [])
       [(semantic_instance_centroid_pub, layer_centroids b), (bounding_box_pub, bounding_boxes b),
        (text_markers_pub, text_markers b), (edges_centroid_pcl_pub, line_assoc_markers b)]"])
       (auto simp: s' flush_layers_published t bb)
qed

theorem displayLayers_boxes_on_label_channel_witness:
  "\<exists>s'. displayLayers sample_externals sample_visualizer sample_graph = Inr s'
     \<and> map fst (published s') = [semantic_instance_centroid_pub, text_markers_pub,
                                  edges_centroid_pcl_pub]
     \<and> (text_markers_pub,
         concat (map (layer_texts sample_externals sample_visualizer (now sample_externals))
                   (g_layers sample_graph))) \<in> set (published s')
     \<and> map m_type (concat (map (layer_texts sample_externals sample_visualizer (now sample_externals))
                              (g_layers sample_graph)))
         = [TEXT_VIEW_FACING, TEXT_VIEW_FACING, CUBE, CUBE, TEXT_VIEW_FACING, TEXT_VIEW_FACING]"
proof -
  let ?texts = "concat (map (layer_texts sample_externals sample_visualizer (now sample_externals))
                          (g_layers sample_graph))"
  have "\<exists>s'. displayLayers sample_externals sample_visualizer sample_graph = Inr s'
     \<and> map fst (published s') = [semantic_instance_centroid_pub, text_markers_pub,
                                  edges_centroid_pcl_pub]"
    by (simp add: displayLayers_def display_layer_step_def handleCentroids_def handleLabels_def
        handleBoundingBoxes_def handleMeshEdges_def makeCentroidMarkers_def
        centroid_step_def makeBoundingBoxMarker_def makeTextMarker_def
        makeMeshEdgesMarker_def mesh_node_step_def flush_layers_def publish_def
        fillHeader_def makeDeleteMarker_def Let_def zero_point_def new_Marker_def
        fillPoseWithIdentity_def NodeColor_Zero_def sample_externals_def
        sample_config_def sample_visualizer_config_def sample_box_def object_node_def
        object_node_b_def objects_layer_def place_a_def place_b_def places_layer_def
        sample_graph_def sample_configs_def sample_visualizer_def)
  then obtain s' where e: "displayLayers sample_externals sample_visualizer sample_graph = Inr s'"
    and p: "map fst (published s') = [semantic_instance_centroid_pub, text_markers_pub,
                                  edges_centroid_pcl_pub]" by (elim exE conjE)
  have t: "map m_type ?texts
         = [TEXT_VIEW_FACING, TEXT_VIEW_FACING, CUBE, CUBE, TEXT_VIEW_FACING, TEXT_VIEW_FACING]"
    by (simp add: layer_texts_def bounding_box_markers_def handleLabels_def
        handleBoundingBoxes_def makeBoundingBoxMarker_def makeTextMarker_def
        fillHeader_def makeDeleteMarker_def Let_def zero_point_def new_Marker_def
        fillPoseWithIdentity_def NodeColor_Zero_def sample_externals_def
        sample_config_def sample_visualizer_config_def sample_box_def object_node_def
        object_node_b_def objects_layer_def place_a_def place_b_def places_layer_def
        sample_graph_def sample_configs_def sample_visualizer_def)
  have ne: "?texts \<noteq> []"
  proof
    assume "?texts = []"
    then have "map m_type ?texts = []" by (simp only: list.map)
    with t show False by simp
  qed
  from displayLayers_boxes_on_label_channel [OF e] obtain new where
    "published s' = published sample_visualizer @ new"
    "?texts \<noteq> [] \<longrightarrow> (text_markers_pub, ?texts) \<in> set new" by blast
  with ne have "(text_markers_pub, ?texts) \<in> set (published s')" by simp
  with e p t show ?thesis by (intro exI [of _ s'] conjI)
qed

text \<open>
  C4, as the code has it. In the layer-display part of a pass, the batches published are
  exactly those of the four arrays (centroids, bounding boxes, labels, mesh edges) that hold
  at least one marker, in this order; a delete marker is a marker like any other.
\<close>

theorem displayLayers_flushes_nonempty:
  assumes "displayLayers X s g = Inr s'"
  shows "\<exists>b msgs. display_layers_loop X s (now X) (g_layers g)
                    (\<lparr>layer_centroids = [], text_markers = [], line_assoc_markers = [],
                      bounding_boxes = []\<rparr>, []) = Inr (b, msgs)
           \<and> published s' = published s @
               filter (\<lambda>pm. snd pm \<noteq> [])
                 [(semantic_instance_centroid_pub, layer_centroids b),
                  (bounding_box_pub, bounding_boxes b),
                  (text_markers_pub, text_markers b),
                  (edges_centroid_pcl_pub, line_assoc_markers b)]"
  using displayLayers_result [OF assms] by (auto simp: flush_layers_published)

theorem displayLayers_flushes_nonempty_witness:
  "\<exists>s' b msgs.
     displayLayers sample_externals hidden_visualizer edgeless_graph = Inr s'
     \<and> display_layers_loop sample_externals hidden_visualizer (now sample_externals)
          (g_layers edgeless_graph)
          (\<lparr>layer_centroids = [], text_markers = [], line_assoc_markers = [],
            bounding_boxes = []\<rparr>, []) = Inr (b, msgs)
     \<and> bounding_boxes b = []
     \<and> published s' = [(semantic_instance_centroid_pub, layer_centroids b),
                        (text_markers_pub, text_markers b),
                        (edges_centroid_pcl_pub, line_assoc_markers b)]"
proof -
  have "\<exists>s'. displayLayers sample_externals hidden_visualizer edgeless_graph = Inr s'"
    by (simp add: displayLayers_def display_layer_step_def handleCentroids_def handleLabels_def
        handleBoundingBoxes_def handleMeshEdges_def makeCentroidMarkers_def
        centroid_step_def makeBoundingBoxMarker_def makeTextMarker_def
        makeMeshEdgesMarker_def mesh_node_step_def flush_layers_def publish_def
        fillHeader_def makeDeleteMarker_def Let_def zero_point_def new_Marker_def
        fillPoseWithIdentity_def NodeColor_Zero_def sample_externals_def
        sample_config_def sample_visualizer_config_def sample_box_def object_node_def
        object_node_b_def objects_layer_def edgeless_graph_def sample_visualizer_def
        hidden_visualizer_def)
  then obtain s' where e: "displayLayers sample_externals hidden_visualizer edgeless_graph = Inr s'" ..
  from displayLayers_flushes_nonempty [OF e] obtain b msgs where
    l: "display_layers_loop sample_externals hidden_visualizer (now sample_externals)
          (g_layers edgeless_graph)
          (\<lparr>layer_centroids = [], text_markers = [], line_assoc_markers = [],
            bounding_boxes = []\<rparr>, []) = Inr (b, msgs)"
    and p: "published s' = published hidden_visualizer @
               filter (\<lambda>pm. snd pm \<noteq> [])
                 [(semantic_instance_centroid_pub, layer_centroids b),
                  (bounding_box_pub, bounding_boxes b),
                  (text_markers_pub, text_markers b),
                  (edges_centroid_pcl_pub, line_assoc_markers b)]" by blast
  have "\<exists>b msgs. display_layers_loop sample_externals hidden_visualizer (now sample_externals)
          (g_layers edgeless_graph)
          (\<lparr>layer_centroids = [], text_markers = [], line_assoc_markers = [],
            bounding_boxes = []\<rparr>, []) = Inr (b, msgs) \<and> bounding_boxes b = []
          \<and> layer_centroids b \<noteq> [] \<and> text_markers b \<noteq> [] \<and> line_assoc_markers b \<noteq> []"
    by (simp add: displayLayers_def display_layer_step_def handleCentroids_def handleLabels_def
        handleBoundingBoxes_def handleMeshEdges_def makeCentroidMarkers_def
        centroid_step_def makeBoundingBoxMarker_def makeTextMarker_def
        makeMeshEdgesMarker_def mesh_node_step_def flush_layers_def publish_def
        fillHeader_def makeDeleteMarker_def Let_def zero_point_def new_Marker_def
        fillPoseWithIdentity_def NodeColor_Zero_def sample_externals_def
        sample_config_def sample_visualizer_config_def sample_box_def object_node_def
        object_node_b_def objects_layer_def edgeless_graph_def sample_visualizer_def
        hidden_visualizer_def)
  with l have "bounding_boxes b = []" "layer_centroids b \<noteq> []" "text_markers b \<noteq> []"
    "line_assoc_markers b \<noteq> []" by auto
  with e l p show ?thesis by (simp add: hidden_visualizer_def sample_visualizer_def)
qed

text \<open>
  The claim as the specification states it fails on a pass whose only layer is switched off
  and whose graph has no edge: the batches of centroids, labels and mesh edges hold delete
  markers only and are published, and the empty batch of edges is published too.
\<close>

theorem redraw_sends_deletes_and_empty:
  "pass_actions (redraw sample_externals hidden_visualizer) =
     Inr [(semantic_instance_centroid_pub, [DELETE]),
          (text_markers_pub, [DELETE, DELETE, DELETE, DELETE]),
          (edges_centroid_pcl_pub, [DELETE]),
          (edges_node_node_pub, [])]"
  by (simp add: pass_actions_def published_actions_def redraw_def displayEdges_def
        display_edge_step_def makeLayerEdgeMarkers_def getPosition_def displayLayers_def
        display_layer_step_def handleCentroids_def handleLabels_def
        handleBoundingBoxes_def handleMeshEdges_def makeCentroidMarkers_def
        centroid_step_def makeBoundingBoxMarker_def makeTextMarker_def
        makeMeshEdgesMarker_def mesh_node_step_def flush_layers_def publish_def
        fillHeader_def makeDeleteMarker_def makeGraphEdgeMarkers_def graph_edge_step_def
        getNode_def new_layer_entry_def makeNewEdgeList_def draw_edge_def edge_color_def
        edge_line_def counter_of_def Let_def zero_point_def new_Marker_def
        fillPoseWithIdentity_def NodeColor_Zero_def sample_externals_def
        sample_config_def sample_visualizer_config_def sample_box_def object_node_def
        object_node_b_def objects_layer_def edgeless_graph_def sample_visualizer_def
        hidden_visualizer_def)

lemma displayLayers_fields:
  assumes "displayLayers X s g = Inr s'"
  shows "need_redraw s' = need_redraw s \<and> scene_graph s' = scene_graph s \<and>
         layer_configs s' = layer_configs s \<and> visualizer_config s' = visualizer_config s \<and>
         (\<exists>new. published s' = published s @ new \<and> edges_node_node_pub \<notin> fst ` set new)"
  using displayLayers_result [OF assms] by (auto simp: flush_layers_published)

lemma displayEdges_fields:
  assumes "displayEdges X s g = Inr s'"
  shows "need_redraw s' = need_redraw s \<and> scene_graph s' = scene_graph s \<and>
         (\<exists>batch. published s' = published s @ [(edges_node_node_pub, batch)])"
  using assms by (auto simp: displayEdges_def Let_def split: sum.splits prod.splits)

text \<open>
  What holds of the tick on every input. A tick with no graph held or with the flag down
  changes nothing and returns false. A tick with a graph held and the flag up is one call of
  \<open>displayLayers\<close> followed by one call of \<open>displayEdges\<close> on the state with the flag
  lowered, and an exception of either leaves \<open>redraw\<close>; only when the tick returns is
  the pass complete: it returns true, the flag is down, the graph is still held, and what
  was published is the layer batches followed by exactly one batch on the edge channel. Both
  configuration callbacks raise the flag, and so does \<open>setGraph\<close> with a graph that is
  not empty, which it then holds.
\<close>

lemma redraw_tick:
  "(scene_graph s = None \<or> \<not> need_redraw s \<longrightarrow> redraw X s = Inr (s, False)) \<and>
   (\<forall>g. scene_graph s = Some g \<and> need_redraw s \<longrightarrow>
      redraw X s =
        (case displayLayers X (s\<lparr>need_redraw := False\<rparr>) g of
           Inl e \<Rightarrow> Inl e
         | Inr s1 \<Rightarrow> (case displayEdges X s1 g of Inl e \<Rightarrow> Inl e | Inr s2 \<Rightarrow> Inr (s2, True))) \<and>
      (\<forall>s' r. redraw X s = Inr (s', r) \<longrightarrow>
         r \<and> \<not> need_redraw s' \<and> scene_graph s' = Some g \<and>
         (\<exists>layer_batches edge_batch.
            published s' = published s @ layer_batches @ [(edges_node_node_pub, edge_batch)] \<and>
            edges_node_node_pub \<notin> fst ` set layer_batches))) \<and>
   need_redraw (configUpdateCb c s) \<and>
   need_redraw (layerConfigUpdateCb l lc s) \<and>
   (\<forall>g. \<not> graph_empty X g \<longrightarrow>
      need_redraw (setGraph X (Some g) s) \<and> scene_graph (setGraph X (Some g) s) = Some g)"
proof (intro conjI allI impI)
  assume "scene_graph s = None \<or> \<not> need_redraw s"
  then show "redraw X s = Inr (s, False)"
    by (auto simp: redraw_def split: option.splits)
next
  fix g assume a: "scene_graph s = Some g \<and> need_redraw s"
  then show eq: "redraw X s =
        (case displayLayers X (s\<lparr>need_redraw := False\<rparr>) g of
           Inl e \<Rightarrow> Inl e
         | Inr s1 \<Rightarrow> (case displayEdges X s1 g of Inl e \<Rightarrow> Inl e | Inr s2 \<Rightarrow> Inr (s2, True)))"
    by (simp add: redraw_def Let_def)
  fix s' r assume r: "redraw X s = Inr (s', r)"
  from r eq obtain s1 where
    1: "displayLayers X (s\<lparr>need_redraw := False\<rparr>) g = Inr s1"
    and 2: "displayEdges X s1 g = Inr s'" and rt: "r"
    by (auto split: sum.splits)
  from displayLayers_fields [OF 1] displayEdges_fields [OF 2] a
  have f: "\<not> need_redraw s'" "scene_graph s' = Some g" by auto
  from displayLayers_fields [OF 1] obtain new where
    n: "published s1 = published s @ new" "edges_node_node_pub \<notin> fst ` set new" by auto
  from displayEdges_fields [OF 2] obtain batch where
    "published s' = published s1 @ [(edges_node_node_pub, batch)]" by auto
  with n have p: "\<exists>layer_batches edge_batch.
            published s' = published s @ layer_batches @ [(edges_node_node_pub, edge_batch)] \<and>
            edges_node_node_pub \<notin> fst ` set layer_batches" by auto
  show "r" by (rule rt)
  show "\<not> need_redraw s'" by (rule f(1))
  show "scene_graph s' = Some g" by (rule f(2))
  show "\<exists>layer_batches edge_batch.
            published s' = published s @ layer_batches @ [(edges_node_node_pub, edge_batch)] \<and>
            edges_node_node_pub \<notin> fst ` set layer_batches" by (rule p)
next
  show "need_redraw (configUpdateCb c s)" by (simp add: configUpdateCb_def)
  show "need_redraw (layerConfigUpdateCb l lc s)" by (simp add: layerConfigUpdateCb_def)
next
  fix g assume "\<not> graph_empty X g"
  then show "need_redraw (setGraph X (Some g) s)" "scene_graph (setGraph X (Some g) s) = Some g"
    by (simp_all add: setGraph_def Let_def)
qed

text \<open>
  C2 does not hold of the code. \<open>displayLayers\<close> skips a layer without configuration,
  but \<open>makeGraphEdgeMarkers\<close> reads the configuration of the source layer of an edge
  with \<^verbatim>\<open>configs.at\<close> and nothing catches what it throws: for the sample graph with no
  configuration registered for layer 3, \<^verbatim>\<open>std::out_of_range\<close> leaves the timer
  callback.
\<close>

theorem displayLoop_raises:
  "displayLoop sample_externals unconfigured_visualizer = Inl OutOfRange"
  by (simp add: displayLoop_def redraw_def displayEdges_def display_edge_step_def
        makeLayerEdgeMarkers_def getPosition_def displayLayers_def
        display_layer_step_def handleCentroids_def handleLabels_def
        handleBoundingBoxes_def handleMeshEdges_def makeCentroidMarkers_def
        centroid_step_def makeBoundingBoxMarker_def makeTextMarker_def
        makeMeshEdgesMarker_def mesh_node_step_def flush_layers_def publish_def
        fillHeader_def makeDeleteMarker_def makeGraphEdgeMarkers_def graph_edge_step_def
        getNode_def new_layer_entry_def makeNewEdgeList_def draw_edge_def edge_color_def
        edge_line_def counter_of_def Let_def zero_point_def new_Marker_def
        fillPoseWithIdentity_def NodeColor_Zero_def sample_externals_def
        sample_config_def sample_visualizer_config_def sample_box_def object_node_def
        object_node_b_def objects_layer_def place_a_def place_b_def places_layer_def
        sample_graph_def sample_visualizer_def unconfigured_visualizer_def)

text \<open>
  C8 does not hold of the code, by the same defect. The visualizer without configuration
  for layer 3 is dirty and holds a graph, yet its tick is not one full pass: \<open>redraw\<close>
  lowers the flag, \<open>displayLayers\<close> publishes the batches of centroids, labels and mesh
  edges, and then \<open>displayEdges\<close> throws before anything is sent on the edge channel, so
  the tick ends by the exception with the flag already down.
\<close>

theorem redraw_aborts_pass:
  "need_redraw unconfigured_visualizer
   \<and> scene_graph unconfigured_visualizer = Some sample_graph
   \<and> redraw sample_externals unconfigured_visualizer = Inl OutOfRange
   \<and> (\<exists>s1. displayLayers sample_externals (unconfigured_visualizer\<lparr>need_redraw := False\<rparr>)
               sample_graph = Inr s1
          \<and> \<not> need_redraw s1
          \<and> map fst (published s1) = [semantic_instance_centroid_pub, text_markers_pub,
                                       edges_centroid_pcl_pub]
          \<and> displayEdges sample_externals s1 sample_graph = Inl OutOfRange)"
  by (simp add: redraw_def displayEdges_def display_edge_step_def makeLayerEdgeMarkers_def
        getPosition_def displayLayers_def display_layer_step_def handleCentroids_def
        handleLabels_def handleBoundingBoxes_def handleMeshEdges_def makeCentroidMarkers_def
        centroid_step_def makeBoundingBoxMarker_def makeTextMarker_def makeMeshEdgesMarker_def
        mesh_node_step_def flush_layers_def publish_def fillHeader_def makeDeleteMarker_def
        makeGraphEdgeMarkers_def graph_edge_step_def getNode_def new_layer_entry_def
        makeNewEdgeList_def draw_edge_def edge_color_def edge_line_def counter_of_def Let_def
        zero_point_def new_Marker_def fillPoseWithIdentity_def NodeColor_Zero_def
        sample_externals_def sample_config_def sample_visualizer_config_def sample_box_def
        object_node_def object_node_b_def objects_layer_def place_a_def place_b_def
        places_layer_def sample_graph_def sample_visualizer_def unconfigured_visualizer_def)

text \<open>
  A second way for a dirty tick not to complete: with one edge in layer 3 and an intra-layer
  skip count of 1, the loop of \<open>makeLayerEdgeMarkers\<close> advances its iterator beyond the
  end of the edges.
\<close>

lemma redraw_oversteps:
  "redraw sample_externals
     (sample_visualizer\<lparr>layer_configs :=
        sample_configs(3 \<mapsto> sample_config\<lparr>intralayer_edge_insertion_skip := 1\<rparr>)\<rparr>)
   = Inl IteratorPastEnd"
  by (simp add: redraw_def displayEdges_def display_edge_step_def makeLayerEdgeMarkers_def
        getPosition_def displayLayers_def display_layer_step_def handleCentroids_def
        handleLabels_def handleBoundingBoxes_def handleMeshEdges_def makeCentroidMarkers_def
        centroid_step_def makeBoundingBoxMarker_def makeTextMarker_def makeMeshEdgesMarker_def
        mesh_node_step_def flush_layers_def publish_def fillHeader_def makeDeleteMarker_def
        makeGraphEdgeMarkers_def graph_edge_step_def getNode_def new_layer_entry_def
        makeNewEdgeList_def draw_edge_def edge_color_def edge_line_def counter_of_def Let_def
        zero_point_def new_Marker_def fillPoseWithIdentity_def NodeColor_Zero_def
        sample_externals_def sample_config_def sample_visualizer_config_def sample_box_def
        object_node_def object_node_b_def objects_layer_def place_a_def place_b_def
        places_layer_def sample_graph_def sample_configs_def sample_visualizer_def)

subsection \<open>Inter-layer edges\<close>

lemma every_nth_snoc:
  "every_nth k (xs @ [x]) = every_nth k xs @ (if k dvd Suc (length xs) then [x] else [])"
proof -
  have "map (\<lambda>i. (xs @ [x]) ! i) (filter (\<lambda>i. k dvd Suc i) [0..<length xs]) =
        map (\<lambda>i. xs ! i) (filter (\<lambda>i. k dvd Suc i) [0..<length xs])"
    by (rule map_cong) (auto simp: nth_append)
  then show ?thesis by (simp add: every_nth_def)
qed

lemma every_nth_Nil [simp]: "every_nth k [] = []"
  by (simp add: every_nth_def)

lemma map_of_map_put: "map_of (map_put k v xs) = (map_of xs)(k \<mapsto> v)"
  by (induction xs) (auto simp: fun_eq_iff)

lemma keys_map_put: "fst ` set (map_put k v xs) = insert k (fst ` set xs)"
proof (induction xs)
  case Nil
  then show ?case by simp
next
  case (Cons p xs)
  then show ?case by (cases p) (simp add: insert_commute)
qed

lemma sorted_map_put:
  "sorted_wrt (<) (map fst xs) \<Longrightarrow> sorted_wrt (<) (map fst (map_put k v xs))"
proof (induction xs)
  case Nil
  then show ?case by simp
next
  case (Cons p xs)
  obtain k' v' where p: "p = (k', v')" by (cases p)
  have *: "k' < fst y" if "k' < k" "y \<in> set (map_put k v xs)" for y
  proof -
    from that(2) have "fst y \<in> fst ` set (map_put k v xs)" by (rule imageI)
    then have "fst y = k \<or> fst y \<in> fst ` set xs" by (simp add: keys_map_put)
    with that(1) Cons.prems p show ?thesis by auto
  qed
  show ?case
  proof (cases "k < k'")
    case True
    with Cons.prems p show ?thesis by (auto dest: less_trans)
  next
    case False
    show ?thesis
    proof (cases "k = k'")
      case True
      with Cons.prems p show ?thesis by auto
    next
      case ne: False
      with False have "k' < k" by simp
      with Cons p False ne * show ?thesis by auto
    qed
  qed
qed

lemma counter_step:
  assumes "c = len mod Suc N"
  shows "(N \<le> c \<longrightarrow> Suc N dvd Suc len \<and> Suc len mod Suc N = 0) \<and>
         (c < N \<longrightarrow> \<not> Suc N dvd Suc len \<and> Suc len mod Suc N = Suc c)"
proof -
  have "len mod Suc N < Suc N" by (rule mod_less_divisor) simp
  then have b: "len mod Suc N \<le> N" by (simp only: less_Suc_eq_le)
  have 1: "Suc len mod Suc N = 0" if "N \<le> len mod Suc N"
  proof -
    have "len mod Suc N = N" by (rule le_antisym [OF b that])
    then show ?thesis by (simp add: mod_Suc)
  qed
  have 2: "Suc len mod Suc N = Suc (len mod Suc N)" if "len mod Suc N < N"
    using that by (simp add: mod_Suc)
  show ?thesis using 1 2 assms by (auto simp: dvd_eq_mod_eq_0)
qed


lemma makeNewEdgeList_fields [simp]:
  "m_points (makeNewEdgeList sc L) = []" "m_id (makeNewEdgeList sc L) = L"
  by (simp_all add: makeNewEdgeList_def Let_def new_Marker_def)

lemma not_source_not_eligible:
  "source_layer_of g e \<noteq> Some L \<Longrightarrow> \<not> eligible g configs L e"
  by (simp add: eligible_def)

lemma layer_ok_extend_ineligible:
  assumes "layer_ok X g configs vc pre st L"
    and "\<not> eligible g configs L e"
    and "map_of (layer_markers st) L = None \<longrightarrow> source_layer_of g e \<noteq> Some L"
    and "map_of (layer_markers st') L = map_of (layer_markers st) L"
    and "counter_of (num_since_last_insertion st') L = counter_of (num_since_last_insertion st) L"
  shows "layer_ok X g configs vc (pre @ [e]) st' L"
  using assms by (auto simp: layer_ok_def split: option.splits)

lemma new_layer_entry_inv:
  assumes "new_layer_entry configs source target st = Inr st1"
    and "edge_inv X g configs vc pre st"
  shows "edge_inv X g configs vc pre st1 \<and> map_of (layer_markers st1) (n_layer source) \<noteq> None"
proof (cases "map_of (layer_markers st) (n_layer source)")
  case (Some m)
  with assms show ?thesis by (simp add: new_layer_entry_def)
next
  case None
  let ?Ls = "n_layer source"
  from assms(1) None obtain sc tc where sc: "configs ?Ls = Some sc"
    and tc: "configs (n_layer target) = Some tc"
    by (auto simp: new_layer_entry_def Let_def split: option.splits)
  define m where "m = (if \<not> visualize tc then (makeNewEdgeList sc ?Ls)\<lparr>m_action := DELETE\<rparr>
                       else makeNewEdgeList sc ?Ls)"
  have st1: "st1 = st\<lparr>layer_markers := map_put ?Ls m (layer_markers st),
                      num_since_last_insertion := (num_since_last_insertion st)(?Ls \<mapsto> 0)\<rparr>"
    using assms(1) None sc tc by (simp add: new_layer_entry_def Let_def m_def)
  have m: "m_points m = []" "m_id m = ?Ls" by (simp_all add: m_def)
  from assms(2) have ok: "layer_ok X g configs vc pre st L" for L by (simp add: edge_inv_def)
  from ok [of ?Ls] None have "\<forall>e \<in> set pre. source_layer_of g e \<noteq> Some ?Ls"
    by (simp add: layer_ok_def)
  then have nil: "filter (eligible g configs ?Ls) pre = []"
    by (auto simp: filter_empty_conv eligible_def)
  have "layer_ok X g configs vc pre st1 L" for L
  proof (cases "L = ?Ls")
    case True
    then show ?thesis using sc m nil
      by (simp add: layer_ok_def st1 map_of_map_put counter_of_def)
  next
    case False
    with ok [of L] show ?thesis
      by (auto simp: layer_ok_def st1 map_of_map_put counter_of_def split: option.splits)
  qed
  moreover have "sorted_wrt (<) (map fst (layer_markers st1))"
    using assms(2) by (simp add: st1 edge_inv_def sorted_map_put)
  moreover have "map_of (layer_markers st1) ?Ls \<noteq> None"
    by (simp add: st1 map_of_map_put)
  ultimately show ?thesis by (simp add: edge_inv_def)
qed

lemma graph_edge_step_inv:
  assumes step: "graph_edge_step X g configs vc e st = Inr st'"
    and inv: "edge_inv X g configs vc pre st"
  shows "edge_inv X g configs vc (pre @ [e]) st'"
proof -
  from step obtain source target where src: "getNode g (e_source e) = Some source"
    and tgt: "getNode g (e_target e) = Some target"
    by (auto simp: graph_edge_step_def split: option.splits)
  let ?Ls = "n_layer source"
  let ?Lt = "n_layer target"
  from step src tgt obtain st1 where nle: "new_layer_entry configs source target st = Inr st1"
    by (auto simp: graph_edge_step_def split: sum.splits)
  from step src tgt nle obtain sc where sc: "configs ?Ls = Some sc"
    by (auto simp: graph_edge_step_def split: option.splits)
  from new_layer_entry_inv [OF nle inv] have inv1: "edge_inv X g configs vc pre st1"
    and present: "map_of (layer_markers st1) ?Ls \<noteq> None" by simp_all
  from inv1 have ok1: "layer_ok X g configs vc pre st1 L" for L by (simp add: edge_inv_def)
  from inv1 have sorted1: "sorted_wrt (<) (map fst (layer_markers st1))" by (simp add: edge_inv_def)
  have sl: "source_layer_of g e = Some ?Ls" by (simp add: source_layer_of_def src)
  have tl: "target_layer_of g e = Some ?Lt" by (simp add: target_layer_of_def tgt)
  have other: "layer_ok X g configs vc (pre @ [e]) s2 L"
    if "L \<noteq> ?Ls" "map_of (layer_markers s2) L = map_of (layer_markers st1) L"
       "counter_of (num_since_last_insertion s2) L = counter_of (num_since_last_insertion st1) L"
    for L s2
    by (rule layer_ok_extend_ineligible [OF ok1 [of L]])
       (use that sl in \<open>auto simp: eligible_def\<close>)
  have unchanged: "edge_inv X g configs vc (pre @ [e]) st1" if "\<not> eligible g configs ?Ls e"
  proof -
    have "layer_ok X g configs vc (pre @ [e]) st1 L" for L
    proof (cases "L = ?Ls")
      case True
      show ?thesis unfolding True
        by (rule layer_ok_extend_ineligible [OF ok1 [of ?Ls] that]) (use present in auto)
    next
      case False
      then show ?thesis by (intro other) simp_all
    qed
    with sorted1 show ?thesis by (simp add: edge_inv_def)
  qed
  show ?thesis
  proof (cases "visualize sc")
    case False
    with step src tgt nle sc have "st' = st1" by (simp add: graph_edge_step_def)
    moreover have "\<not> eligible g configs ?Ls e"
      using False sc sl by (simp add: eligible_def layer_visible_def)
    ultimately show ?thesis using unchanged by simp
  next
    case vs: True
    from step src tgt nle sc vs obtain tc where tc: "configs ?Lt = Some tc"
      by (auto simp: graph_edge_step_def split: option.splits)
    show ?thesis
    proof (cases "visualize tc")
      case False
      with step src tgt nle sc vs tc have "st' = st1" by (simp add: graph_edge_step_def)
      moreover have "\<not> eligible g configs ?Ls e"
        using False tc tl by (simp add: eligible_def layer_visible_def)
      ultimately show ?thesis using unchanged by simp
    next
      case vt: True
      have el: "eligible g configs ?Ls e"
        using sl tl sc tc vs vt by (simp add: eligible_def layer_visible_def)
      have line: "line_of X g configs vc e = edge_line X vc sc tc source target"
        by (simp add: line_of_def src tgt sc tc)
      let ?N = "interlayer_edge_insertion_skip sc"
      let ?c = "counter_of (num_since_last_insertion st1) ?Ls"
      let ?fs = "filter (eligible g configs ?Ls) pre"
      from present obtain m0 where m0: "map_of (layer_markers st1) ?Ls = Some m0" by auto
      from ok1 [of ?Ls] m0 sc have id0: "m_id m0 = ?Ls"
        and pts0: "m_points m0 = concat (map (line_of X g configs vc) (every_nth (Suc ?N) ?fs))"
        and cnt0: "?c = length ?fs mod Suc ?N"
        by (auto simp: layer_ok_def)
      note cs = counter_step [OF cnt0]
      show ?thesis
      proof (cases "?N \<le> ?c")
        case True
        let ?s2 = "st1\<lparr>num_since_last_insertion := (num_since_last_insertion st1)(?Ls \<mapsto> 0)\<rparr>"
        from step src tgt nle sc vs tc vt True
        have d: "draw_edge X vc sc tc source target ?s2 = Inr st'"
          by (simp add: graph_edge_step_def Let_def)
        then obtain col where
          st': "st' = ?s2\<lparr>layer_markers :=
                  map_put ?Ls (m0\<lparr>m_points := m_points m0 @ edge_line X vc sc tc source target,
                                  m_colors := m_colors m0 @ [makeColorMsg X col (intralayer_edge_alpha sc),
                                                            makeColorMsg X col (intralayer_edge_alpha sc)]\<rparr>)
                    (layer_markers st1)\<rparr>"
          using m0 by (auto simp: draw_edge_def Let_def split: sum.splits)
        have "layer_ok X g configs vc (pre @ [e]) st' L" for L
        proof (cases "L = ?Ls")
          case same: True
          from cs True have "Suc ?N dvd Suc (length ?fs)" "Suc (length ?fs) mod Suc ?N = 0" by simp_all
          then show ?thesis unfolding same using sc id0 pts0 el line
            by (simp add: layer_ok_def st' map_of_map_put counter_of_def every_nth_snoc)
        next
          case False
          then show ?thesis
            by (intro other) (simp_all add: st' map_of_map_put counter_of_def)
        qed
        moreover have "sorted_wrt (<) (map fst (layer_markers st'))"
          using sorted1 by (simp add: st' sorted_map_put)
        ultimately show ?thesis by (simp add: edge_inv_def)
      next
        case False
        then have lt: "?c < ?N" by simp
        from step src tgt nle sc vs tc vt False
        have st': "st' = st1\<lparr>num_since_last_insertion :=
                               (num_since_last_insertion st1)(?Ls \<mapsto> ?c + 1)\<rparr>"
          by (simp add: graph_edge_step_def Let_def)
        have "layer_ok X g configs vc (pre @ [e]) st' L" for L
        proof (cases "L = ?Ls")
          case same: True
          from cs lt have "\<not> Suc ?N dvd Suc (length ?fs)" "Suc (length ?fs) mod Suc ?N = Suc ?c"
            by simp_all
          then show ?thesis unfolding same using sc id0 pts0 el m0
            by (simp add: layer_ok_def st' counter_of_def every_nth_snoc)
        next
          case False
          then show ?thesis
            by (intro other) (simp_all add: st' counter_of_def)
        qed
        moreover have "sorted_wrt (<) (map fst (layer_markers st'))"
          using sorted1 by (simp add: st')
        ultimately show ?thesis by (simp add: edge_inv_def)
      qed
    qed
  qed
qed

lemma graph_edge_loop_inv:
  assumes "graph_edge_loop X g configs vc es st = Inr st'"
    and "edge_inv X g configs vc pre st"
  shows "edge_inv X g configs vc (pre @ es) st'"
  using assms
proof (induction es arbitrary: st pre)
  case Nil
  then show ?case by simp
next
  case (Cons e es)
  from Cons.prems(1) obtain st1 where
    1: "graph_edge_step X g configs vc e st = Inr st1"
    and 2: "graph_edge_loop X g configs vc es st1 = Inr st'"
    by (auto split: sum.splits)
  from Cons.IH [OF 2 graph_edge_step_inv [OF 1 Cons.prems(2)]] show ?case by simp
qed

lemma edge_inv_init:
  "edge_inv X g configs vc [] \<lparr>layer_markers = [], num_since_last_insertion = Map.empty\<rparr>"
  by (simp add: edge_inv_def layer_ok_def)

lemma subseq_every_nth: "subseq (every_nth k xs) xs"
proof (induction xs rule: rev_induct)
  case Nil
  then show ?case by simp
next
  case (snoc x xs)
  then show ?case
    by (auto simp: every_nth_snoc intro: list_emb_append_mono list_emb_append2)
qed

lemma graph_edge_loop_append:
  "graph_edge_loop X g configs vc (xs @ ys) st =
     (case graph_edge_loop X g configs vc xs st of
        Inl e \<Rightarrow> Inl e
      | Inr st' \<Rightarrow> graph_edge_loop X g configs vc ys st')"
  by (induction xs arbitrary: st) (auto split: sum.splits)

lemma edge_inv_marker:
  assumes "edge_inv X g configs vc es st" and "(L, m) \<in> set (layer_markers st)"
  shows "\<exists>sc. configs L = Some sc \<and> m_id m = L
           \<and> m_points m = concat (map (line_of X g configs vc)
                               (every_nth (Suc (interlayer_edge_insertion_skip sc))
                                  (filter (eligible g configs L) es)))
           \<and> counter_of (num_since_last_insertion st) L =
               length (filter (eligible g configs L) es) mod Suc (interlayer_edge_insertion_skip sc)"
proof -
  from assms(1) have "distinct (map fst (layer_markers st))"
    by (simp add: edge_inv_def strict_sorted_iff)
  with assms(2) have "map_of (layer_markers st) L = Some m" by simp
  moreover from assms(1) have "layer_ok X g configs vc es st L" by (simp add: edge_inv_def)
  ultimately show ?thesis by (simp add: layer_ok_def)
qed

lemma graph_edge_loop_from_empty:
  assumes "graph_edge_loop X g configs vc es
             \<lparr>layer_markers = [], num_since_last_insertion = Map.empty\<rparr> = Inr st"
  shows "edge_inv X g configs vc es st"
  using graph_edge_loop_inv [OF assms edge_inv_init] by simp

text \<open>
  C3. When \<open>makeGraphEdgeMarkers\<close> returns, the marker of each source layer holds the
  lines of exactly every \<open>(N + 1)\<close>-th eligible edge of that layer, in traversal order,
  where \<open>N\<close> is the skip count of the layer. At every point of the traversal the counter
  of a layer is the number of eligible edges of that layer met so far, modulo \<open>N + 1\<close>:
  it counts the edges of its own layer only and is zero after each drawn edge.
\<close>

theorem interlayer_edges_every_nth:
  assumes "makeGraphEdgeMarkers X g configs vc = Inr markers"
  shows "(\<forall>m \<in> set markers. \<exists>sc. configs (m_id m) = Some sc \<and>
            m_points m = concat (map (line_of X g configs vc)
                               (every_nth (Suc (interlayer_edge_insertion_skip sc))
                                  (filter (eligible g configs (m_id m)) (inter_layer_edges g)))))
       \<and> (\<forall>k \<le> length (inter_layer_edges g). \<exists>st.
            graph_edge_loop X g configs vc (take k (inter_layer_edges g))
              \<lparr>layer_markers = [], num_since_last_insertion = Map.empty\<rparr> = Inr st \<and>
            (\<forall>(L, m) \<in> set (layer_markers st). \<exists>sc. configs L = Some sc \<and>
               counter_of (num_since_last_insertion st) L =
                 length (filter (eligible g configs L) (take k (inter_layer_edges g)))
                   mod Suc (interlayer_edge_insertion_skip sc)))"
proof (intro conjI ballI allI impI)
  let ?init = "\<lparr>layer_markers = [], num_since_last_insertion = Map.empty\<rparr> :: edge_state"
  from assms obtain st where loop: "graph_edge_loop X g configs vc (inter_layer_edges g) ?init = Inr st"
    and markers: "markers = map snd (layer_markers st)"
    by (auto simp: makeGraphEdgeMarkers_def split: sum.splits)
  {
    fix m assume "m \<in> set markers"
    with markers obtain L where "(L, m) \<in> set (layer_markers st)" by auto
    from edge_inv_marker [OF graph_edge_loop_from_empty [OF loop] this]
    show "\<exists>sc. configs (m_id m) = Some sc \<and>
            m_points m = concat (map (line_of X g configs vc)
                               (every_nth (Suc (interlayer_edge_insertion_skip sc))
                                  (filter (eligible g configs (m_id m)) (inter_layer_edges g))))"
      by auto
  }
  {
    fix k assume "k \<le> length (inter_layer_edges g)"
    let ?pre = "take k (inter_layer_edges g)"
    have "graph_edge_loop X g configs vc (?pre @ drop k (inter_layer_edges g)) ?init = Inr st"
      using loop by simp
    then obtain sk where sk: "graph_edge_loop X g configs vc ?pre ?init = Inr sk"
      unfolding graph_edge_loop_append by (auto split: sum.splits)
    have "\<forall>(L, m) \<in> set (layer_markers sk). \<exists>sc. configs L = Some sc \<and>
               counter_of (num_since_last_insertion sk) L =
                 length (filter (eligible g configs L) ?pre) mod Suc (interlayer_edge_insertion_skip sc)"
      using edge_inv_marker [OF graph_edge_loop_from_empty [OF sk]] by blast
    with sk show "\<exists>st. graph_edge_loop X g configs vc ?pre ?init = Inr st \<and>
            (\<forall>(L, m) \<in> set (layer_markers st). \<exists>sc. configs L = Some sc \<and>
               counter_of (num_since_last_insertion st) L =
                 length (filter (eligible g configs L) ?pre) mod Suc (interlayer_edge_insertion_skip sc))"
      by blast
  }
qed

theorem interlayer_edges_every_nth_witness:
  "\<exists>markers.
     makeGraphEdgeMarkers sample_externals sample_graph sample_configs sample_visualizer_config
       = Inr markers
     \<and> map m_points markers =
         [[zero_point\<lparr>p_y := Fin 1\<rparr>, zero_point\<lparr>p_x := Fin 2\<rparr>,
           zero_point\<lparr>p_y := Fin 2\<rparr>, zero_point\<lparr>p_x := Fin 2\<rparr>]]
     \<and> every_nth 2 (filter (eligible sample_graph sample_configs 3) (inter_layer_edges sample_graph))
         = [\<lparr>e_source = 10, e_target = 4\<rparr>, \<lparr>e_source = 11, e_target = 4\<rparr>]
     \<and> (\<forall>m \<in> set markers. \<exists>sc. sample_configs (m_id m) = Some sc \<and>
            m_points m = concat (map (line_of sample_externals sample_graph sample_configs
                                        sample_visualizer_config)
                               (every_nth (Suc (interlayer_edge_insertion_skip sc))
                                  (filter (eligible sample_graph sample_configs (m_id m))
                                     (inter_layer_edges sample_graph)))))"
proof -
  have "\<exists>markers.
     makeGraphEdgeMarkers sample_externals sample_graph sample_configs sample_visualizer_config
       = Inr markers
     \<and> map m_points markers =
         [[zero_point\<lparr>p_y := Fin 1\<rparr>, zero_point\<lparr>p_x := Fin 2\<rparr>,
           zero_point\<lparr>p_y := Fin 2\<rparr>, zero_point\<lparr>p_x := Fin 2\<rparr>]]"
    by (simp add: makeGraphEdgeMarkers_def graph_edge_step_def getNode_def new_layer_entry_def
        makeNewEdgeList_def draw_edge_def edge_color_def edge_line_def counter_of_def
        Let_def zero_point_def new_Marker_def fillPoseWithIdentity_def
        NodeColor_Zero_def sample_externals_def sample_config_def
        sample_visualizer_config_def sample_box_def object_node_def object_node_b_def
        objects_layer_def place_a_def place_b_def places_layer_def sample_graph_def
        sample_configs_def)
  then obtain markers where
    e: "makeGraphEdgeMarkers sample_externals sample_graph sample_configs sample_visualizer_config
          = Inr markers"
    and p: "map m_points markers =
         [[zero_point\<lparr>p_y := Fin 1\<rparr>, zero_point\<lparr>p_x := Fin 2\<rparr>,
           zero_point\<lparr>p_y := Fin 2\<rparr>, zero_point\<lparr>p_x := Fin 2\<rparr>]]"
    by (elim exE conjE)
  have n: "every_nth 2 (filter (eligible sample_graph sample_configs 3) (inter_layer_edges sample_graph))
         = [\<lparr>e_source = 10, e_target = 4\<rparr>, \<lparr>e_source = 11, e_target = 4\<rparr>]"
    by (simp add: every_nth_def eligible_def source_layer_of_def target_layer_of_def
        layer_visible_def getNode_def upt_rec sample_externals_def sample_config_def
        sample_visualizer_config_def sample_box_def object_node_def object_node_b_def
        objects_layer_def place_a_def place_b_def places_layer_def sample_graph_def
        sample_configs_def)
  from interlayer_edges_every_nth [OF e]
  have c: "\<forall>m \<in> set markers. \<exists>sc. sample_configs (m_id m) = Some sc \<and>
            m_points m = concat (map (line_of sample_externals sample_graph sample_configs
                                        sample_visualizer_config)
                               (every_nth (Suc (interlayer_edge_insertion_skip sc))
                                  (filter (eligible sample_graph sample_configs (m_id m))
                                     (inter_layer_edges sample_graph))))"
    by (rule conjunct1)
  show ?thesis using e p n c by (intro exI [of _ markers] conjI)
qed

text \<open>
  C6. When \<open>makeGraphEdgeMarkers\<close> returns, its markers belong to pairwise different
  source layers, in increasing order of the layer, and the points of a marker are the lines of a
  subsequence of the inter-layer edges, each of which has its source in the layer of the
  marker, a visible source layer and a visible target layer. An edge whose target layer has
  \<open>visualize\<close> off contributes to no marker.
\<close>

theorem interlayer_edges_grouped:
  assumes "makeGraphEdgeMarkers X g configs vc = Inr markers"
  shows "sorted_wrt (<) (map m_id markers)
       \<and> (\<forall>m \<in> set markers. \<exists>es. subseq es (inter_layer_edges g)
            \<and> m_points m = concat (map (line_of X g configs vc) es)
            \<and> (\<forall>e \<in> set es. source_layer_of g e = Some (m_id m)
                  \<and> layer_visible configs (source_layer_of g e)
                  \<and> layer_visible configs (target_layer_of g e)))"
proof (intro conjI ballI)
  let ?init = "\<lparr>layer_markers = [], num_since_last_insertion = Map.empty\<rparr> :: edge_state"
  from assms obtain st where loop: "graph_edge_loop X g configs vc (inter_layer_edges g) ?init = Inr st"
    and markers: "markers = map snd (layer_markers st)"
    by (auto simp: makeGraphEdgeMarkers_def split: sum.splits)
  note inv = graph_edge_loop_from_empty [OF loop]
  have ids: "m_id m = L" if "(L, m) \<in> set (layer_markers st)" for L m
    using edge_inv_marker [OF inv that] by blast
  have "map m_id markers = map fst (layer_markers st)"
    unfolding markers map_map by (rule map_cong [OF refl]) (auto simp: ids)
  with inv show "sorted_wrt (<) (map m_id markers)" by (simp add: edge_inv_def)
  fix m assume "m \<in> set markers"
  with markers obtain L where "(L, m) \<in> set (layer_markers st)" by auto
  from edge_inv_marker [OF inv this] obtain sc where
    "configs L = Some sc \<and> m_id m = L
       \<and> m_points m = concat (map (line_of X g configs vc)
                               (every_nth (Suc (interlayer_edge_insertion_skip sc))
                                  (filter (eligible g configs L) (inter_layer_edges g))))
       \<and> counter_of (num_since_last_insertion st) L =
               length (filter (eligible g configs L) (inter_layer_edges g))
                 mod Suc (interlayer_edge_insertion_skip sc)" ..
  then have id: "m_id m = L"
    and pts: "m_points m = concat (map (line_of X g configs vc)
                               (every_nth (Suc (interlayer_edge_insertion_skip sc))
                                  (filter (eligible g configs L) (inter_layer_edges g))))"
    by simp_all
  let ?es = "every_nth (Suc (interlayer_edge_insertion_skip sc))
               (filter (eligible g configs L) (inter_layer_edges g))"
  have 1: "subseq ?es (filter (eligible g configs L) (inter_layer_edges g))"
    by (rule subseq_every_nth)
  have "subseq (filter (eligible g configs L) (inter_layer_edges g)) (inter_layer_edges g)"
    by (rule subseq_filter_left)
  with 1 have a: "subseq ?es (inter_layer_edges g)"
    by (rule subseq_order.order_trans)
  have el: "eligible g configs L e" if "e \<in> set ?es" for e
  proof -
    from 1 that obtain y where "y \<in> set (filter (eligible g configs L) (inter_layer_edges g))"
      and "e = y" by (rule list_emb_set)
    then show ?thesis by simp
  qed
  have c: "\<forall>e \<in> set ?es. source_layer_of g e = Some (m_id m)
                  \<and> layer_visible configs (source_layer_of g e)
                  \<and> layer_visible configs (target_layer_of g e)"
  proof
    fix e assume "e \<in> set ?es"
    then have "eligible g configs L e" by (rule el)
    then show "source_layer_of g e = Some (m_id m)
                  \<and> layer_visible configs (source_layer_of g e)
                  \<and> layer_visible configs (target_layer_of g e)"
      by (auto simp: eligible_def id)
  qed
  show "\<exists>es. subseq es (inter_layer_edges g)
            \<and> m_points m = concat (map (line_of X g configs vc) es)
            \<and> (\<forall>e \<in> set es. source_layer_of g e = Some (m_id m)
                  \<and> layer_visible configs (source_layer_of g e)
                  \<and> layer_visible configs (target_layer_of g e))"
  proof (intro exI conjI)
    show "subseq ?es (inter_layer_edges g)" by (rule a)
    show "m_points m = concat (map (line_of X g configs vc) ?es)" by (rule pts)
    show "\<forall>e \<in> set ?es. source_layer_of g e = Some (m_id m)
                  \<and> layer_visible configs (source_layer_of g e)
                  \<and> layer_visible configs (target_layer_of g e)" by (rule c)
  qed
qed

theorem interlayer_edges_grouped_witness:
  "\<exists>markers.
     makeGraphEdgeMarkers sample_externals sample_graph
       (sample_configs(2 \<mapsto> sample_config\<lparr>visualize := False\<rparr>)) sample_visualizer_config
       = Inr markers
     \<and> map m_id markers = [3] \<and> map m_points markers = [[]] \<and> map m_action markers = [DELETE]
     \<and> (\<forall>m \<in> set markers. \<exists>es. subseq es (inter_layer_edges sample_graph)
            \<and> m_points m = concat (map (line_of sample_externals sample_graph
                  (sample_configs(2 \<mapsto> sample_config\<lparr>visualize := False\<rparr>))
                  sample_visualizer_config) es)
            \<and> (\<forall>e \<in> set es. source_layer_of sample_graph e = Some (m_id m)
                  \<and> layer_visible (sample_configs(2 \<mapsto> sample_config\<lparr>visualize := False\<rparr>))
                       (source_layer_of sample_graph e)
                  \<and> layer_visible (sample_configs(2 \<mapsto> sample_config\<lparr>visualize := False\<rparr>))
                       (target_layer_of sample_graph e)))"
proof -
  let ?configs = "sample_configs(2 \<mapsto> sample_config\<lparr>visualize := False\<rparr>)"
  have "\<exists>markers.
     makeGraphEdgeMarkers sample_externals sample_graph ?configs sample_visualizer_config
       = Inr markers
     \<and> map m_id markers = [3] \<and> map m_points markers = [[]] \<and> map m_action markers = [DELETE]"
    by (simp add: makeGraphEdgeMarkers_def graph_edge_step_def getNode_def new_layer_entry_def
        makeNewEdgeList_def draw_edge_def edge_color_def edge_line_def counter_of_def
        Let_def zero_point_def new_Marker_def fillPoseWithIdentity_def
        NodeColor_Zero_def sample_externals_def sample_config_def
        sample_visualizer_config_def sample_box_def object_node_def object_node_b_def
        objects_layer_def place_a_def place_b_def places_layer_def sample_graph_def
        sample_configs_def)
  then obtain markers where
    e: "makeGraphEdgeMarkers sample_externals sample_graph ?configs sample_visualizer_config
          = Inr markers"
    and p: "map m_id markers = [3]" "map m_points markers = [[]]" "map m_action markers = [DELETE]"
    by (elim exE conjE)
  from interlayer_edges_grouped [OF e]
  have c: "\<forall>m \<in> set markers. \<exists>es. subseq es (inter_layer_edges sample_graph)
            \<and> m_points m = concat (map (line_of sample_externals sample_graph ?configs
                  sample_visualizer_config) es)
            \<and> (\<forall>e \<in> set es. source_layer_of sample_graph e = Some (m_id m)
                  \<and> layer_visible ?configs (source_layer_of sample_graph e)
                  \<and> layer_visible ?configs (target_layer_of sample_graph e))"
    by (rule conjunct2)
  show ?thesis using e p c by (intro exI [of _ markers] conjI)
qed

end
